theory Spec2Isabelle
  imports Main "HOL-Library.Word"
begin

unbundle bit_operations_syntax

section \<open>USB CDC device controller of the nRF52840 (machine/usb\_nrf52840.go)\<close>

text \<open>
  A shallow embedding of \<^verbatim>\<open>src/machine/usb_nrf52840.go\<close>. The package-level variables
  of the Go file and the registers of \<^verbatim>\<open>nrf.USBD\<close> that the file reads and writes are
  the fields of one record, passed explicitly. Go run-time panics (index and slice bounds)
  and the busy-wait of \<^verbatim>\<open>waitForEasyDMA\<close> are outcomes of their own.
\<close>

subsection \<open>Data\<close>

type_synonym u8 = "8 word"
type_synonym u16 = "16 word"
type_synonym u32 = "32 word"

text \<open>A \<^verbatim>\<open>*byte\<close> into one of the two staging arrays:
  \<^verbatim>\<open>&udd_ep_in_cache_buffer[ep][i]\<close> and \<^verbatim>\<open>&udd_ep_out_cache_buffer[ep][i]\<close>.
  The nil pointer is \<open>None\<close>.\<close>

datatype addr = InCache nat nat | OutCache nat nat

record cdcLineInfo =
  dwDTERate :: u32
  bCharFormat :: u8
  bParityType :: u8
  bDataBits :: u8
  lineState :: u8

record usbSetup =
  bmRequestType :: u8
  bRequest :: u8
  wValueL :: u8
  wValueH :: u8
  wIndex :: u16
  wLength :: u16

text \<open>Writes of 1 to the task registers of the peripheral, and the calls of the two
  functions of the package that live outside this file, in the order they happen.\<close>

datatype task =
    TASKS_STARTEPIN nat
  | TASKS_STARTEPOUT nat
  | TASKS_EP0STATUS
  | TASKS_EP0STALL
  | TASKS_EP0RCVOUT
  | CALL_checkShouldReset
  | CALL_Receive u8

datatype fault = IndexOutOfRange | SliceBoundsOutOfRange

datatype 'a outcome = Returns 'a | Panics fault | Hangs

definition andThen :: "'a outcome \<Rightarrow> ('a \<Rightarrow> 'b outcome) \<Rightarrow> 'b outcome" where
  "andThen m f = (case m of Returns x \<Rightarrow> f x | Panics e \<Rightarrow> Panics e | Hangs \<Rightarrow> Hangs)"

record state =
  \<comment> \<open>package-level variables\<close>
  udd_ep_in_cache_buffer :: "nat \<Rightarrow> nat \<Rightarrow> u8"
  udd_ep_out_cache_buffer :: "nat \<Rightarrow> nat \<Rightarrow> u8"
  sendOnEP0DATADONE_ptr :: "addr option"
  sendOnEP0DATADONE_count :: int
  isEndpointHalt :: bool
  isRemoteWakeUpEnabled :: bool
  usbConfiguration :: u8
  usbSetInterface :: u8
  usbLineInfo :: cdcLineInfo
  epinen :: u32
  epouten :: u32
  easyDMABusy :: u8
  epout0data_setlinecoding :: bool
  \<comment> \<open>registers of nrf.USBD\<close>
  EVENTS_USBEVENT :: u32
  EVENTCAUSE :: u32
  EVENTS_EP0DATADONE :: u32
  EVENTS_EP0SETUP :: u32
  EVENTS_EPDATA :: u32
  EPDATASTATUS :: u32
  EVENTS_ENDEPOUT :: "nat \<Rightarrow> u32"
  INTENSET :: u32
  USBPULLUP :: u32
  EPIN_PTR :: "nat \<Rightarrow> addr option"
  EPIN_MAXCNT :: "nat \<Rightarrow> u32"
  EPOUT_PTR :: "nat \<Rightarrow> addr option"
  EPOUT_MAXCNT :: "nat \<Rightarrow> u32"
  EPOUT_AMOUNT :: "nat \<Rightarrow> u32"
  SIZE_EPOUT :: "nat \<Rightarrow> u32"
  BMREQUESTTYPE :: u32
  BREQUEST :: u32
  WVALUEL :: u32
  WVALUEH :: u32
  WINDEXL :: u32
  WINDEXH :: u32
  WLENGTHL :: u32
  WLENGTHH :: u32
  EPINEN :: u32
  EPOUTEN :: u32
  \<comment> \<open>the trace\<close>
  tasks :: "task list"

subsection \<open>Declarations the file uses from elsewhere\<close>

text \<open>Modelled from the spec: the constants below are declared in \<^verbatim>\<open>usb.go\<close> of the
  package, which is not among the sources. The spec fixes the maximum packet size of the
  control and bulk endpoints at 64 bytes, names the endpoint table (control, interrupt-IN,
  bulk-OUT, bulk-IN) and the DTR and RTS bits of the line state, and refers to the standard
  USB 2.0 control-transfer protocol and the CDC-ACM class requests for the request codes;
  the values are the ones of those standards.\<close>

definition usbEndpointPacketSize :: int where "usbEndpointPacketSize = 64"

definition usb_CDC_ENDPOINT_ACM :: nat where "usb_CDC_ENDPOINT_ACM = 1"
definition usb_CDC_ENDPOINT_OUT :: nat where "usb_CDC_ENDPOINT_OUT = 2"
definition usb_CDC_ENDPOINT_IN :: nat where "usb_CDC_ENDPOINT_IN = 3"

definition usb_CDC_LINESTATE_DTR :: u8 where "usb_CDC_LINESTATE_DTR = 0x01"
definition usb_CDC_LINESTATE_RTS :: u8 where "usb_CDC_LINESTATE_RTS = 0x02"

definition usb_ENDPOINT_TYPE_CONTROL :: u32 where "usb_ENDPOINT_TYPE_CONTROL = 0x00"
definition usb_ENDPOINT_TYPE_BULK :: u32 where "usb_ENDPOINT_TYPE_BULK = 0x02"
definition usb_ENDPOINT_TYPE_INTERRUPT :: u32 where "usb_ENDPOINT_TYPE_INTERRUPT = 0x03"
definition usbEndpointOut :: u32 where "usbEndpointOut = 0x00"
definition usbEndpointIn :: u32 where "usbEndpointIn = 0x80"

definition usb_GET_STATUS :: u8 where "usb_GET_STATUS = 0"
definition usb_CLEAR_FEATURE :: u8 where "usb_CLEAR_FEATURE = 1"
definition usb_SET_FEATURE :: u8 where "usb_SET_FEATURE = 3"
definition usb_SET_ADDRESS :: u8 where "usb_SET_ADDRESS = 5"
definition usb_GET_DESCRIPTOR :: u8 where "usb_GET_DESCRIPTOR = 6"
definition usb_SET_DESCRIPTOR :: u8 where "usb_SET_DESCRIPTOR = 7"
definition usb_GET_CONFIGURATION :: u8 where "usb_GET_CONFIGURATION = 8"
definition usb_SET_CONFIGURATION :: u8 where "usb_SET_CONFIGURATION = 9"
definition usb_GET_INTERFACE :: u8 where "usb_GET_INTERFACE = 10"
definition usb_SET_INTERFACE :: u8 where "usb_SET_INTERFACE = 11"

definition usb_REQUEST_TYPE :: u8 where "usb_REQUEST_TYPE = 0x60"
definition usb_REQUEST_STANDARD :: u8 where "usb_REQUEST_STANDARD = 0x00"
definition usb_REQUEST_RECIPIENT :: u8 where "usb_REQUEST_RECIPIENT = 0x1F"
definition usb_REQUEST_DEVICE :: u8 where "usb_REQUEST_DEVICE = 0x00"
definition usb_REQUEST_INTERFACE :: u8 where "usb_REQUEST_INTERFACE = 0x01"
definition usb_REQUEST_ENDPOINT :: u8 where "usb_REQUEST_ENDPOINT = 0x02"
definition usb_REQUEST_DEVICETOHOST_CLASS_INTERFACE :: u8 where
  "usb_REQUEST_DEVICETOHOST_CLASS_INTERFACE = 0xA1"
definition usb_REQUEST_HOSTTODEVICE_CLASS_INTERFACE :: u8 where
  "usb_REQUEST_HOSTTODEVICE_CLASS_INTERFACE = 0x21"

definition usb_CDC_ACM_INTERFACE :: u16 where "usb_CDC_ACM_INTERFACE = 0"
definition usb_CDC_SET_LINE_CODING :: u8 where "usb_CDC_SET_LINE_CODING = 0x20"
definition usb_CDC_GET_LINE_CODING :: u8 where "usb_CDC_GET_LINE_CODING = 0x21"
definition usb_CDC_SET_CONTROL_LINE_STATE :: u8 where "usb_CDC_SET_CONTROL_LINE_STATE = 0x22"
definition usb_CDC_SEND_BREAK :: u8 where "usb_CDC_SEND_BREAK = 0x23"

definition usb_DEVICE_DESCRIPTOR_TYPE :: u8 where "usb_DEVICE_DESCRIPTOR_TYPE = 1"
definition usb_CONFIGURATION_DESCRIPTOR_TYPE :: u8 where "usb_CONFIGURATION_DESCRIPTOR_TYPE = 2"
definition usb_STRING_DESCRIPTOR_TYPE :: u8 where "usb_STRING_DESCRIPTOR_TYPE = 3"

definition usb_IMANUFACTURER :: u8 where "usb_IMANUFACTURER = 1"
definition usb_IPRODUCT :: u8 where "usb_IPRODUCT = 2"
definition usb_ISERIAL :: u8 where "usb_ISERIAL = 3"

text \<open>Modelled from the spec: the bit masks of the generated package \<^verbatim>\<open>device/nrf\<close>,
  which is not among the sources. The spec treats the peripheral as an opaque register
  file with event and cause flags; the values are the bit positions of the nRF52840's
  USBD block.\<close>

definition nrf_USBD_EVENTCAUSE_READY :: u32 where "nrf_USBD_EVENTCAUSE_READY = 0x800"
definition nrf_USBD_INTENSET_EP0SETUP :: u32 where "nrf_USBD_INTENSET_EP0SETUP = 0x800000"
definition nrf_USBD_INTENSET_ENDEPOUT0 :: u32 where "nrf_USBD_INTENSET_ENDEPOUT0 = 0x1000"
definition nrf_USBD_EPDATASTATUS_EPIN1 :: u32 where "nrf_USBD_EPDATASTATUS_EPIN1 = 0x2"
definition nrf_USBD_EPDATASTATUS_EPOUT1 :: u32 where "nrf_USBD_EPDATASTATUS_EPOUT1 = 0x20000"
definition nrf_USBD_EPOUTEN_OUT0 :: u32 where "nrf_USBD_EPOUTEN_OUT0 = 0x1"
definition nrf_USBD_EPINEN_IN0 :: u32 where "nrf_USBD_EPINEN_IN0 = 0x1"

text \<open>The endpoint table \<^verbatim>\<open>endPoints\<close>; the file never assigns to it.\<close>

definition endPoints :: "u32 list" where
  "endPoints = [usb_ENDPOINT_TYPE_CONTROL,
                usb_ENDPOINT_TYPE_INTERRUPT OR usbEndpointIn,
                usb_ENDPOINT_TYPE_BULK OR usbEndpointOut,
                usb_ENDPOINT_TYPE_BULK OR usbEndpointIn]"

text \<open>Modelled from the spec: \<^verbatim>\<open>volatile.Register8\<close> is declared in the package
  \<^verbatim>\<open>runtime/volatile\<close>, which is not among the sources. The spec describes the busy flag
  as a single boolean that is tested, set and cleared; the three methods are the bitwise
  test, or and and-not of the register with the given mask.\<close>

definition HasBits :: "u8 \<Rightarrow> u8 \<Rightarrow> bool" where
  "HasBits r v = (r AND v > 0)"

definition SetBits :: "u8 \<Rightarrow> u8 \<Rightarrow> u8" where
  "SetBits r v = (r OR v)"

definition ClearBits :: "u8 \<Rightarrow> u8 \<Rightarrow> u8" where
  "ClearBits r v = (r AND NOT v)"

text \<open>Modelled from the spec: \<^verbatim>\<open>checkShouldReset\<close> is declared in \<^verbatim>\<open>usb.go\<close>, which
  is not among the sources. The spec leaves the reset policy external and fixes only that
  the hook is called after a change of the line state or of the line coding: the model
  records the call.\<close>

definition checkShouldReset :: "state \<Rightarrow> state" where
  "checkShouldReset s = s\<lparr>tasks := tasks s @ [CALL_checkShouldReset]\<rparr>"

text \<open>Modelled from the spec: \<^verbatim>\<open>USBCDC.Receive\<close> and the ring buffer are declared
  outside the sources. The spec describes a byte sink that this file only pushes single
  bytes into: the model records each byte pushed.\<close>

definition Receive :: "u8 \<Rightarrow> state \<Rightarrow> state" where
  "Receive c s = s\<lparr>tasks := tasks s @ [CALL_Receive c]\<rparr>"

subsection \<open>The DMA arbitration layer\<close>

text \<open>\<^verbatim>\<open>waitForEasyDMA\<close> spins on the busy flag. \<^verbatim>\<open>wfi\<close> changes none of the
  variables, and within one sequential run nothing else does, so the loop that finds the
  flag set never ends: its value is \<open>None\<close>.\<close>

partial_function (option) waitForEasyDMA :: "state \<Rightarrow> state option" where
  "waitForEasyDMA s = (if HasBits (easyDMABusy s) 1 then waitForEasyDMA s else Some s)"

definition enterCriticalSection :: "state \<Rightarrow> state outcome" where
  "enterCriticalSection s =
     (case waitForEasyDMA s of
        None \<Rightarrow> Hangs
      | Some s1 \<Rightarrow> Returns (s1\<lparr>easyDMABusy := SetBits (easyDMABusy s1) 1\<rparr>))"

definition exitCriticalSection :: "state \<Rightarrow> state" where
  "exitCriticalSection s = s\<lparr>easyDMABusy := ClearBits (easyDMABusy s) 1\<rparr>"

subsection \<open>The endpoint I/O manager\<close>

text \<open>\<^verbatim>\<open>nrf.USBD.EPIN\<close> and \<^verbatim>\<open>TASKS_STARTEPIN\<close> are arrays of eight; the staging
  arrays have seven rows of 128 bytes.\<close>

definition sendViaEPIn :: "nat \<Rightarrow> addr option \<Rightarrow> int \<Rightarrow> state \<Rightarrow> state outcome" where
  "sendViaEPIn ep ptr count s =
     (if ep < 8 then
        Returns (s\<lparr>EPIN_PTR := (EPIN_PTR s)(ep := ptr),
                   EPIN_MAXCNT := (EPIN_MAXCNT s)(ep := word_of_int count),
                   tasks := tasks s @ [TASKS_STARTEPIN ep]\<rparr>)
      else Panics IndexOutOfRange)"

text \<open>Go's \<^verbatim>\<open>copy(dst[:], src)\<close> on a row of 128 bytes: the first
  \<open>min 128 (len src)\<close> bytes are overwritten, the others stay.\<close>

definition copy_row :: "(nat \<Rightarrow> u8) \<Rightarrow> u8 list \<Rightarrow> (nat \<Rightarrow> u8)" where
  "copy_row dst src = (\<lambda>i. if i < min 128 (length src) then src ! i else dst i)"

definition sendUSBPacket :: "nat \<Rightarrow> u8 list \<Rightarrow> state \<Rightarrow> state outcome" where
  "sendUSBPacket ep data s =
     (let count = int (length data) in
      if ep < 7 then
        (let s1 = s\<lparr>udd_ep_in_cache_buffer :=
                      (udd_ep_in_cache_buffer s)(ep := copy_row (udd_ep_in_cache_buffer s ep) data)\<rparr>
         in if ep = 0 \<and> count > usbEndpointPacketSize then
              sendViaEPIn ep (Some (InCache ep 0)) usbEndpointPacketSize
                (s1\<lparr>sendOnEP0DATADONE_ptr := Some (InCache ep (nat usbEndpointPacketSize)),
                    sendOnEP0DATADONE_count := count - usbEndpointPacketSize\<rparr>)
            else sendViaEPIn ep (Some (InCache ep 0)) count s1)
      else Panics IndexOutOfRange)"

text \<open>Modelled from the spec: what the DMA engine reads when an IN transfer is started.
  The spec says that \<^verbatim>\<open>sendViaEPIn\<close> programs the pointer and length registers of the
  endpoint and triggers the start task. The seven rows of the staging array are contiguous
  in memory, as a Go array of arrays is, so a read that runs past the end of a row goes on
  in the next row. Memory outside the array is not modelled: a read that leaves it has
  no value.\<close>

definition in_cache_byte :: "state \<Rightarrow> nat \<Rightarrow> u8" where
  "in_cache_byte s a = udd_ep_in_cache_buffer s (a div 128) (a mod 128)"

definition out_cache_byte :: "state \<Rightarrow> nat \<Rightarrow> u8" where
  "out_cache_byte s a = udd_ep_out_cache_buffer s (a div 128) (a mod 128)"

fun dma_read :: "state \<Rightarrow> addr \<Rightarrow> nat \<Rightarrow> u8 list option" where
  "dma_read s (InCache ep i) n =
     (if ep < 7 \<and> i < 128 \<and> ep * 128 + i + n \<le> 7 * 128
      then Some (map (\<lambda>k. in_cache_byte s (ep * 128 + i + k)) [0..<n]) else None)"
| "dma_read s (OutCache ep i) n =
     (if ep < 7 \<and> i < 128 \<and> ep * 128 + i + n \<le> 7 * 128
      then Some (map (\<lambda>k. out_cache_byte s (ep * 128 + i + k)) [0..<n]) else None)"

definition epin_packet :: "state \<Rightarrow> nat \<Rightarrow> u8 list option" where
  "epin_packet s ep =
     (case EPIN_PTR s ep of
        None \<Rightarrow> None
      | Some a \<Rightarrow> dma_read s a (unat (EPIN_MAXCNT s ep)))"

subsection \<open>Descriptors\<close>

text \<open>The declarations of \<^verbatim>\<open>usb.go\<close> that differ from board to board or that build the
  configuration and string descriptors are parameters of the model:
  the vendor and product identifiers, the two strings, the string encoder, the bytes of
  \<^verbatim>\<open>NewConfigDescriptor(uint16(configDescriptorSize + cdcSize), 2).Bytes()\<close> and the bytes
  of the CDC descriptor that \<^verbatim>\<open>sendConfiguration\<close> assembles.\<close>

record usb_decls =
  usb_VID :: u16
  usb_PID :: u16
  usb_STRING_PRODUCT :: string
  usb_STRING_MANUFACTURER :: string
  strToUTF16LEDescriptor :: "string \<Rightarrow> u8 list"
  config_Bytes :: "u8 list"
  cdc_Bytes :: "u8 list"

text \<open>Modelled from the spec: \<^verbatim>\<open>DeviceDescriptor\<close>, \<^verbatim>\<open>NewDeviceDescriptor\<close> and its
  method \<^verbatim>\<open>Bytes\<close> are declared in \<^verbatim>\<open>usb.go\<close>, which is not among the sources. The spec
  says that the descriptor builder produces the exact byte layout required by the USB
  specification: the 18 bytes of the standard device descriptor, every 16-bit field
  little-endian, the arguments of the constructor in the order of the call.\<close>

record DeviceDescriptor =
  bLength :: u8
  bDescriptorType :: u8
  bcdUSB :: u16
  bDeviceClass :: u8
  bDeviceSubClass :: u8
  bDeviceProtocol :: u8
  bMaxPacketSize0 :: u8
  idVendor :: u16
  idProduct :: u16
  bcdDevice :: u16
  iManufacturer :: u8
  iProduct :: u8
  iSerialNumber :: u8
  bNumConfigurations :: u8

definition NewDeviceDescriptor ::
  "u8 \<Rightarrow> u8 \<Rightarrow> u8 \<Rightarrow> u8 \<Rightarrow> u16 \<Rightarrow> u16 \<Rightarrow> u16 \<Rightarrow> u8 \<Rightarrow> u8 \<Rightarrow> u8 \<Rightarrow> u8 \<Rightarrow> DeviceDescriptor" where
  "NewDeviceDescriptor class subClass proto packetSize0 vid pid version im ip is configs =
     \<lparr>bLength = 18, bDescriptorType = 1, bcdUSB = 0x200,
      bDeviceClass = class, bDeviceSubClass = subClass, bDeviceProtocol = proto,
      bMaxPacketSize0 = packetSize0, idVendor = vid, idProduct = pid, bcdDevice = version,
      iManufacturer = im, iProduct = ip, iSerialNumber = is, bNumConfigurations = configs\<rparr>"

definition le16 :: "u16 \<Rightarrow> u8 list" where
  "le16 w = [ucast w, ucast (drop_bit 8 w)]"

definition DeviceDescriptor_Bytes :: "DeviceDescriptor \<Rightarrow> u8 list" where
  "DeviceDescriptor_Bytes d =
     [bLength d, bDescriptorType d] @ le16 (bcdUSB d) @
     [bDeviceClass d, bDeviceSubClass d, bDeviceProtocol d, bMaxPacketSize0 d] @
     le16 (idVendor d) @ le16 (idProduct d) @ le16 (bcdDevice d) @
     [iManufacturer d, iProduct d, iSerialNumber d, bNumConfigurations d]"

definition sendConfiguration :: "usb_decls \<Rightarrow> usbSetup \<Rightarrow> state \<Rightarrow> state outcome" where
  "sendConfiguration d setup s =
     (if wLength setup = 9 then sendUSBPacket 0 (config_Bytes d) s
      else sendUSBPacket 0 ([] @ config_Bytes d @ cdc_Bytes d) s)"

text \<open>The slice expression \<^verbatim>\<open>b[:2]\<close> panics when the slice is shorter.\<close>

definition slice_to :: "u8 list \<Rightarrow> nat \<Rightarrow> u8 list outcome" where
  "slice_to b n = (if n \<le> length b then Returns (take n b) else Panics SliceBoundsOutOfRange)"

definition trigger :: "task \<Rightarrow> state \<Rightarrow> state" where
  "trigger t s = s\<lparr>tasks := tasks s @ [t]\<rparr>"

definition sendDescriptor :: "usb_decls \<Rightarrow> usbSetup \<Rightarrow> state \<Rightarrow> state outcome" where
  "sendDescriptor d setup s =
     (if wValueH setup = usb_CONFIGURATION_DESCRIPTOR_TYPE then sendConfiguration d setup s
      else if wValueH setup = usb_DEVICE_DESCRIPTOR_TYPE then
        (if wLength setup = 8 then
           andThen (slice_to (DeviceDescriptor_Bytes
                       (NewDeviceDescriptor 0xEF 0x02 0x01 64 (usb_VID d) (usb_PID d) 0x100
                          usb_IMANUFACTURER usb_IPRODUCT usb_ISERIAL 1)) 8)
             (\<lambda>b. sendUSBPacket 0 b s)
         else
           sendUSBPacket 0 (DeviceDescriptor_Bytes
               (NewDeviceDescriptor 0x02 0x00 0x00 64 (usb_VID d) (usb_PID d) 0x100
                  usb_IMANUFACTURER usb_IPRODUCT usb_ISERIAL 1)) s)
      else if wValueH setup = usb_STRING_DESCRIPTOR_TYPE then
        (if wValueL setup = 0 then sendUSBPacket 0 [0x04, 0x03, 0x09, 0x04] s
         else if wValueL setup = usb_IPRODUCT then
           (let b = strToUTF16LEDescriptor d (usb_STRING_PRODUCT d) in
            if wLength setup = 2 then andThen (slice_to b 2) (\<lambda>b2. sendUSBPacket 0 b2 s)
            else sendUSBPacket 0 b s)
         else if wValueL setup = usb_IMANUFACTURER then
           (let b = strToUTF16LEDescriptor d (usb_STRING_MANUFACTURER d) in
            if wLength setup = 2 then andThen (slice_to b 2) (\<lambda>b2. sendUSBPacket 0 b2 s)
            else sendUSBPacket 0 b s)
         else if wValueL setup = usb_ISERIAL then Returns (trigger TASKS_EP0STATUS s)
         else Returns s)
      else Returns (trigger TASKS_EP0STATUS s))"

subsection \<open>The control transfer state machine\<close>

definition parseUSBLineInfo :: "u8 list \<Rightarrow> state \<Rightarrow> state outcome" where
  "parseUSBLineInfo b s =
     (if length b < 7 then Panics IndexOutOfRange
      else Returns (s\<lparr>usbLineInfo := (usbLineInfo s)\<lparr>
             dwDTERate := ucast (b ! 0) OR push_bit 8 (ucast (b ! 1))
                          OR push_bit 16 (ucast (b ! 2)) OR push_bit 24 (ucast (b ! 3)),
             bCharFormat := b ! 4,
             bParityType := b ! 5,
             bDataBits := b ! 6\<rparr>\<rparr>))"

definition parseUSBSetupRegisters :: "state \<Rightarrow> usbSetup" where
  "parseUSBSetupRegisters s =
     \<lparr>bmRequestType = ucast (BMREQUESTTYPE s),
      bRequest = ucast (BREQUEST s),
      wValueL = ucast (WVALUEL s),
      wValueH = ucast (WVALUEH s),
      wIndex = ucast (push_bit 8 (WINDEXH s) OR WINDEXL s),
      wLength = ucast (push_bit 8 (WLENGTHH s AND 0xff) OR (WLENGTHL s AND 0xff))\<rparr>"

definition enableEPOut :: "nat \<Rightarrow> state \<Rightarrow> state" where
  "enableEPOut ep s =
     (let e = epouten s OR push_bit ep nrf_USBD_EPOUTEN_OUT0
      in s\<lparr>epouten := e, EPOUTEN := e\<rparr>)"

definition enableEPIn :: "nat \<Rightarrow> state \<Rightarrow> state" where
  "enableEPIn ep s =
     (let e = epinen s OR push_bit ep nrf_USBD_EPINEN_IN0
      in s\<lparr>epinen := e, EPINEN := e\<rparr>)"

text \<open>\<^verbatim>\<open>nrf.USBD.SIZE.EPOUT\<close> is an array of eight.\<close>

definition initEndpoint :: "nat \<Rightarrow> u32 \<Rightarrow> state \<Rightarrow> state outcome" where
  "initEndpoint ep config s =
     (if config = (usb_ENDPOINT_TYPE_INTERRUPT OR usbEndpointIn) then Returns (enableEPIn ep s)
      else if config = (usb_ENDPOINT_TYPE_BULK OR usbEndpointOut) then
        (if ep < 8 then
           Returns (enableEPOut ep
             (s\<lparr>INTENSET := push_bit ep nrf_USBD_INTENSET_ENDEPOUT0,
                SIZE_EPOUT := (SIZE_EPOUT s)(ep := 0)\<rparr>))
         else Panics IndexOutOfRange)
      else if config = (usb_ENDPOINT_TYPE_INTERRUPT OR usbEndpointOut) then
        (if ep < 8 then
           Returns (enableEPOut ep
             (s\<lparr>INTENSET := push_bit ep nrf_USBD_INTENSET_ENDEPOUT0,
                SIZE_EPOUT := (SIZE_EPOUT s)(ep := 0)\<rparr>))
         else Panics IndexOutOfRange)
      else if config = (usb_ENDPOINT_TYPE_BULK OR usbEndpointIn) then Returns (enableEPIn ep s)
      else if config = usb_ENDPOINT_TYPE_CONTROL then
        Returns (trigger TASKS_EP0STATUS
          ((enableEPOut 0 (enableEPIn 0 s))\<lparr>INTENSET := nrf_USBD_INTENSET_ENDEPOUT0\<rparr>))
      else Returns s)"

text \<open>The loop of \<^verbatim>\<open>SET_CONFIGURATION\<close> over the endpoint table, from index \<open>i\<close>.\<close>

function initEndpoints_from :: "nat \<Rightarrow> state \<Rightarrow> state outcome" where
  "initEndpoints_from i s =
     (if i < length endPoints then
        andThen (initEndpoint i (endPoints ! i) s) (initEndpoints_from (i + 1))
      else Returns s)"
  by pat_completeness auto
termination
  by (relation "measure (\<lambda>(i, s). length endPoints - i)") auto

definition handleStandardSetup :: "usb_decls \<Rightarrow> usbSetup \<Rightarrow> state \<Rightarrow> (bool \<times> state) outcome" where
  "handleStandardSetup d setup s =
     (if bRequest setup = usb_GET_STATUS then
        (let buf = [0, 0];
             buf = (if bmRequestType setup \<noteq> 0 then
                      (if isEndpointHalt s then buf[0 := 1] else buf)
                    else buf)
         in andThen (sendUSBPacket 0 buf s) (\<lambda>s1. Returns (True, s1)))
      else if bRequest setup = usb_CLEAR_FEATURE then
        (let s1 = (if wValueL setup = 1 then s\<lparr>isRemoteWakeUpEnabled := False\<rparr>
                   else if wValueL setup = 0 then s\<lparr>isEndpointHalt := False\<rparr>
                   else s)
         in Returns (True, trigger TASKS_EP0STATUS s1))
      else if bRequest setup = usb_SET_FEATURE then
        (let s1 = (if wValueL setup = 1 then s\<lparr>isRemoteWakeUpEnabled := True\<rparr>
                   else if wValueL setup = 0 then s\<lparr>isEndpointHalt := True\<rparr>
                   else s)
         in Returns (True, trigger TASKS_EP0STATUS s1))
      else if bRequest setup = usb_SET_ADDRESS then Returns (True, s)
      else if bRequest setup = usb_GET_DESCRIPTOR then
        andThen (sendDescriptor d setup s) (\<lambda>s1. Returns (True, s1))
      else if bRequest setup = usb_SET_DESCRIPTOR then Returns (False, s)
      else if bRequest setup = usb_GET_CONFIGURATION then
        andThen (sendUSBPacket 0 [usbConfiguration s] s) (\<lambda>s1. Returns (True, s1))
      else if bRequest setup = usb_SET_CONFIGURATION then
        (if bmRequestType setup AND usb_REQUEST_RECIPIENT = usb_REQUEST_DEVICE then
           andThen (initEndpoints_from 1 (trigger TASKS_EP0STATUS s))
             (\<lambda>s1. Returns (True, s1\<lparr>usbConfiguration := wValueL setup\<rparr>))
         else Returns (False, s))
      else if bRequest setup = usb_GET_INTERFACE then
        andThen (sendUSBPacket 0 [usbSetInterface s] s) (\<lambda>s1. Returns (True, s1))
      else if bRequest setup = usb_SET_INTERFACE then
        Returns (True, trigger TASKS_EP0STATUS (s\<lparr>usbSetInterface := wValueL setup\<rparr>))
      else Returns (True, s))"

definition cdcSetup :: "usbSetup \<Rightarrow> state \<Rightarrow> (bool \<times> state) outcome" where
  "cdcSetup setup s =
     (if bmRequestType setup = usb_REQUEST_DEVICETOHOST_CLASS_INTERFACE
         \<and> bRequest setup = usb_CDC_GET_LINE_CODING then
        (let li = usbLineInfo s;
             b = [ucast (dwDTERate li),
                  ucast (drop_bit 8 (dwDTERate li)),
                  ucast (drop_bit 16 (dwDTERate li)),
                  ucast (drop_bit 24 (dwDTERate li)),
                  bCharFormat li,
                  bParityType li,
                  bDataBits li]
         in andThen (sendUSBPacket 0 b s) (\<lambda>s1. Returns (True, s1)))
      else if bmRequestType setup = usb_REQUEST_HOSTTODEVICE_CLASS_INTERFACE then
        (if bRequest setup = usb_CDC_SET_LINE_CODING then
           Returns (True, trigger TASKS_EP0RCVOUT (s\<lparr>epout0data_setlinecoding := True\<rparr>))
         else
           (let s1 = (if bRequest setup = usb_CDC_SET_CONTROL_LINE_STATE then
                        trigger TASKS_EP0STATUS (checkShouldReset
                          (s\<lparr>usbLineInfo := (usbLineInfo s)\<lparr>lineState := wValueL setup\<rparr>\<rparr>))
                      else s);
                s2 = (if bRequest setup = usb_CDC_SEND_BREAK then trigger TASKS_EP0STATUS s1
                      else s1)
            in Returns (True, s2)))
      else Returns (False, s))"

subsection \<open>The interrupt dispatcher\<close>

text \<open>\<^verbatim>\<open>handleEndpoint\<close>: the loop that hands the received bytes to the ring buffer,
  from index \<open>i\<close>; \<^verbatim>\<open>count\<close> is the 32-bit \<^verbatim>\<open>int\<close> read from \<^verbatim>\<open>AMOUNT\<close>.\<close>

function handleEndpoint_from :: "nat \<Rightarrow> int \<Rightarrow> nat \<Rightarrow> state \<Rightarrow> state outcome" where
  "handleEndpoint_from ep count i s =
     (if int i < count then
        (if ep < 7 \<and> i < 128 then
           handleEndpoint_from ep count (i + 1) (Receive (udd_ep_out_cache_buffer s ep i) s)
         else Panics IndexOutOfRange)
      else Returns s)"
  by pat_completeness auto
termination
  by (relation "measure (\<lambda>(ep, count, i, s). 128 - i)") auto

definition handleEndpoint :: "nat \<Rightarrow> state \<Rightarrow> state outcome" where
  "handleEndpoint ep s =
     (if ep < 8 then
        andThen (handleEndpoint_from ep (sint (EPOUT_AMOUNT s ep)) 0 s)
          (\<lambda>s1. Returns (s1\<lparr>SIZE_EPOUT := (SIZE_EPOUT s1)(ep := 0)\<rparr>))
      else Panics IndexOutOfRange)"

text \<open>The five parts of \<^verbatim>\<open>handleInterrupt\<close>, in the order of the source. A register
  is a cell that the code reads and writes; what the peripheral does when a register is
  written is outside the model.\<close>

definition handleInterrupt_USBEVENT :: "state \<Rightarrow> state outcome" where
  "handleInterrupt_USBEVENT s =
     (if EVENTS_USBEVENT s = 1 then
        (let s1 = s\<lparr>EVENTS_USBEVENT := 0\<rparr> in
         andThen
           (if EVENTCAUSE s1 AND nrf_USBD_EVENTCAUSE_READY > 0 then
              andThen (initEndpoint 0 usb_ENDPOINT_TYPE_CONTROL s1)
                (\<lambda>s2. Returns (s2\<lparr>INTENSET := nrf_USBD_INTENSET_EP0SETUP,
                                  USBPULLUP := 1,
                                  usbConfiguration := 0\<rparr>))
            else Returns s1)
           (\<lambda>s3. Returns (s3\<lparr>EVENTCAUSE := 0\<rparr>)))
      else Returns s)"

definition handleInterrupt_EP0DATADONE :: "state \<Rightarrow> state outcome" where
  "handleInterrupt_EP0DATADONE s =
     (let s1 = s\<lparr>EVENTS_EP0DATADONE := 0\<rparr> in
      if epout0data_setlinecoding s1 then
        Returns (trigger (TASKS_STARTEPOUT 0)
          (s1\<lparr>EPOUT_PTR := (EPOUT_PTR s1)(0 := Some (OutCache 0 0)),
              EPOUT_MAXCNT := (EPOUT_MAXCNT s1)(0 := 64)\<rparr>))
      else if sendOnEP0DATADONE_ptr s1 \<noteq> None then
        andThen (sendViaEPIn 0 (sendOnEP0DATADONE_ptr s1) (sendOnEP0DATADONE_count s1) s1)
          (\<lambda>s2. Returns (s2\<lparr>sendOnEP0DATADONE_ptr := None\<rparr>))
      else Returns (trigger TASKS_EP0STATUS s1))"

definition handleInterrupt_EP0SETUP :: "usb_decls \<Rightarrow> state \<Rightarrow> state outcome" where
  "handleInterrupt_EP0SETUP d s =
     (if EVENTS_EP0SETUP s = 1 then
        (let s1 = s\<lparr>EVENTS_EP0SETUP := 0\<rparr>;
             setup = parseUSBSetupRegisters s1
         in andThen
              (if bmRequestType setup AND usb_REQUEST_TYPE = usb_REQUEST_STANDARD then
                 handleStandardSetup d setup s1
               else if wIndex setup = usb_CDC_ACM_INTERFACE then cdcSetup setup s1
               else Returns (False, s1))
              (\<lambda>(ok, s2). if \<not> ok then Returns (trigger TASKS_EP0STALL s2) else Returns s2))
      else Returns s)"

function handleInterrupt_EPDATA_from :: "u32 \<Rightarrow> nat \<Rightarrow> state \<Rightarrow> state outcome" where
  "handleInterrupt_EPDATA_from epDataStatus i s =
     (if i < length endPoints then
        (let inDataDone = epDataStatus AND push_bit (i - 1) nrf_USBD_EPDATASTATUS_EPIN1 > 0;
             outDataDone = epDataStatus AND push_bit (i - 1) nrf_USBD_EPDATASTATUS_EPOUT1 > 0
         in andThen
              (if inDataDone \<or> outDataDone then
                 (if i = usb_CDC_ENDPOINT_OUT then
                    (if outDataDone then
                       andThen (enterCriticalSection s)
                         (\<lambda>s1. let count = SIZE_EPOUT s1 i in
                            Returns (trigger (TASKS_STARTEPOUT i)
                              (s1\<lparr>EPOUT_PTR := (EPOUT_PTR s1)(i := Some (OutCache i 0)),
                                  EPOUT_MAXCNT := (EPOUT_MAXCNT s1)(i := count)\<rparr>)))
                     else Returns s)
                  else if i = usb_CDC_ENDPOINT_IN then
                    (if inDataDone then Returns (exitCriticalSection s) else Returns s)
                  else Returns s)
               else Returns s)
              (handleInterrupt_EPDATA_from epDataStatus (i + 1)))
      else Returns s)"
  by pat_completeness auto
termination
  by (relation "measure (\<lambda>(e, i, s). length endPoints - i)") auto

definition handleInterrupt_EPDATA :: "state \<Rightarrow> state outcome" where
  "handleInterrupt_EPDATA s =
     (if EVENTS_EPDATA s > 0 then
        (let s1 = s\<lparr>EVENTS_EPDATA := 0\<rparr>;
             epDataStatus = EPDATASTATUS s1;
             s2 = s1\<lparr>EPDATASTATUS := epDataStatus\<rparr>
         in handleInterrupt_EPDATA_from epDataStatus 1 s2)
      else Returns s)"

text \<open>The slice \<^verbatim>\<open>udd_ep_out_cache_buffer[0][:count]\<close> of a row of 128 bytes.\<close>

definition out_row_slice :: "state \<Rightarrow> nat \<Rightarrow> int \<Rightarrow> u8 list outcome" where
  "out_row_slice s ep count =
     (if 0 \<le> count \<and> count \<le> 128 then
        Returns (map (udd_ep_out_cache_buffer s ep) [0..<nat count])
      else Panics SliceBoundsOutOfRange)"

text \<open>The body of the loop over the \<^verbatim>\<open>ENDEPOUT\<close> events, for index \<open>i\<close>, and the loop
  from index \<open>i\<close>.\<close>

definition handleInterrupt_ENDEPOUT_at :: "nat \<Rightarrow> state \<Rightarrow> state outcome" where
  "handleInterrupt_ENDEPOUT_at i s =
     (if EVENTS_ENDEPOUT s i > 0 then
        (let s1 = s\<lparr>EVENTS_ENDEPOUT := (EVENTS_ENDEPOUT s)(i := 0)\<rparr> in
         andThen
           (if i = 0 \<and> epout0data_setlinecoding s1 then
              (let s2 = s1\<lparr>epout0data_setlinecoding := False\<rparr>;
                   count = sint (SIZE_EPOUT s2 0)
               in andThen
                    (if count \<ge> 7 then
                       andThen (out_row_slice s2 0 count)
                         (\<lambda>b. andThen (parseUSBLineInfo b s2)
                            (\<lambda>s3. Returns (checkShouldReset s3)))
                     else Returns s2)
                    (\<lambda>s4. Returns (trigger TASKS_EP0STATUS s4)))
            else Returns s1)
           (\<lambda>s5. andThen
              (if i = usb_CDC_ENDPOINT_OUT then handleEndpoint i s5 else Returns s5)
              (\<lambda>s6. Returns (exitCriticalSection s6))))
      else Returns s)"

function handleInterrupt_ENDEPOUT_from :: "nat \<Rightarrow> state \<Rightarrow> state outcome" where
  "handleInterrupt_ENDEPOUT_from i s =
     (if i < length endPoints then
        andThen (handleInterrupt_ENDEPOUT_at i s) (handleInterrupt_ENDEPOUT_from (i + 1))
      else Returns s)"
  by pat_completeness auto
termination
  by (relation "measure (\<lambda>(i, s). length endPoints - i)") auto

definition handleInterrupt :: "usb_decls \<Rightarrow> state \<Rightarrow> state outcome" where
  "handleInterrupt d s =
     andThen (handleInterrupt_USBEVENT s)
       (\<lambda>s1. if EVENTS_EP0DATADONE s1 = 1 then handleInterrupt_EP0DATADONE s1
             else andThen (handleInterrupt_EP0SETUP d s1)
                    (\<lambda>s2. andThen (handleInterrupt_EPDATA s2)
                       (handleInterrupt_ENDEPOUT_from 0)))"

subsection \<open>The serial-interface facade\<close>

text \<open>Go's \<^verbatim>\<open>error\<close>: \<open>None\<close> is \<^verbatim>\<open>nil\<close>.\<close>

type_synonym error = "string option"

definition WriteByte :: "u8 \<Rightarrow> state \<Rightarrow> (error \<times> state) outcome" where
  "WriteByte c s =
     (if lineState (usbLineInfo s) > 0 then
        andThen (enterCriticalSection s)
          (\<lambda>s1. andThen
             (sendViaEPIn usb_CDC_ENDPOINT_IN (Some (InCache usb_CDC_ENDPOINT_IN 0)) 1
                (s1\<lparr>udd_ep_in_cache_buffer :=
                      (udd_ep_in_cache_buffer s1)(usb_CDC_ENDPOINT_IN :=
                         (udd_ep_in_cache_buffer s1 usb_CDC_ENDPOINT_IN)(0 := c))\<rparr>))
             (\<lambda>s2. Returns (None, s2)))
      else Returns (None, s))"

definition DTR :: "state \<Rightarrow> bool" where
  "DTR s = (lineState (usbLineInfo s) AND usb_CDC_LINESTATE_DTR > 0)"

definition RTS :: "state \<Rightarrow> bool" where
  "RTS s = (lineState (usbLineInfo s) AND usb_CDC_LINESTATE_RTS > 0)"

subsection \<open>The state at start-up and an instance of the parameters\<close>

text \<open>The package-level variables as their declarations initialise them (the line coding
  is 115200 baud, 8 data bits, line state 0), every register zero, nothing triggered yet.\<close>

definition boot :: state where
  "boot =
     \<lparr>udd_ep_in_cache_buffer = (\<lambda>ep i. 0),
      udd_ep_out_cache_buffer = (\<lambda>ep i. 0),
      sendOnEP0DATADONE_ptr = None,
      sendOnEP0DATADONE_count = 0,
      isEndpointHalt = False,
      isRemoteWakeUpEnabled = False,
      usbConfiguration = 0,
      usbSetInterface = 0,
      usbLineInfo = \<lparr>dwDTERate = 115200, bCharFormat = 0x00, bParityType = 0x00,
                     bDataBits = 0x08, lineState = 0x00\<rparr>,
      epinen = 0,
      epouten = 0,
      easyDMABusy = 0,
      epout0data_setlinecoding = False,
      EVENTS_USBEVENT = 0,
      EVENTCAUSE = 0,
      EVENTS_EP0DATADONE = 0,
      EVENTS_EP0SETUP = 0,
      EVENTS_EPDATA = 0,
      EPDATASTATUS = 0,
      EVENTS_ENDEPOUT = (\<lambda>i. 0),
      INTENSET = 0,
      USBPULLUP = 0,
      EPIN_PTR = (\<lambda>i. None),
      EPIN_MAXCNT = (\<lambda>i. 0),
      EPOUT_PTR = (\<lambda>i. None),
      EPOUT_MAXCNT = (\<lambda>i. 0),
      EPOUT_AMOUNT = (\<lambda>i. 0),
      SIZE_EPOUT = (\<lambda>i. 0),
      BMREQUESTTYPE = 0,
      BREQUEST = 0,
      WVALUEL = 0,
      WVALUEH = 0,
      WINDEXL = 0,
      WINDEXH = 0,
      WLENGTHL = 0,
      WLENGTHH = 0,
      EPINEN = 0,
      EPOUTEN = 0,
      tasks = []\<rparr>"

text \<open>One choice of the parameters, for the closed instances of the theorems: a string
  descriptor is a length byte, the type byte 3 and two bytes for each character.\<close>

definition sample_decls :: usb_decls where
  "sample_decls =
     \<lparr>usb_VID = 0x239A,
      usb_PID = 0x8029,
      usb_STRING_PRODUCT = ''Board'',
      usb_STRING_MANUFACTURER = ''Maker'',
      strToUTF16LEDescriptor =
        (\<lambda>str. [of_nat (2 * length str + 2), 0x03] @ concat (map (\<lambda>c. [of_char c, 0]) str)),
      config_Bytes = replicate 9 0x09,
      cdc_Bytes = replicate 66 0x24\<rparr>"

subsection \<open>Vocabulary of the properties\<close>

text \<open>The IN transfers started between two states, and the bytes of the control-endpoint
  response a setup handler has programmed.\<close>

fun is_STARTEPIN :: "task \<Rightarrow> bool" where
  "is_STARTEPIN (TASKS_STARTEPIN ep) = True"
| "is_STARTEPIN t = False"

definition starts_since :: "state \<Rightarrow> state \<Rightarrow> task list" where
  "starts_since s s' = filter is_STARTEPIN (drop (length (tasks s)) (tasks s'))"

definition response :: "(bool \<times> state) outcome \<Rightarrow> u8 list option" where
  "response r = (case r of Returns (ok, s1) \<Rightarrow> epin_packet s1 0 | Panics e \<Rightarrow> None | Hangs \<Rightarrow> None)"

text \<open>Delivery of a control response in two packets: \<^verbatim>\<open>sendUSBPacket\<close> starts one IN
  transfer of 64 bytes and records the remainder; the interrupt that finds the
  EP0-data-done event latched starts exactly one more IN transfer and clears the record;
  the two packets together are the response.\<close>

definition two_packet_delivery :: "usb_decls \<Rightarrow> u8 list \<Rightarrow> state \<Rightarrow> bool" where
  "two_packet_delivery d data s =
     (case sendUSBPacket 0 data s of
        Returns s1 \<Rightarrow>
          starts_since s s1 = [TASKS_STARTEPIN 0] \<and>
          sendOnEP0DATADONE_ptr s1 = Some (InCache 0 64) \<and>
          sendOnEP0DATADONE_count s1 = int (length data) - 64 \<and>
          (case epin_packet s1 0 of
             Some p1 \<Rightarrow>
               length p1 = 64 \<and>
               (case handleInterrupt d (s1\<lparr>EVENTS_EP0DATADONE := 1\<rparr>) of
                  Returns s2 \<Rightarrow>
                    starts_since s1 s2 = [TASKS_STARTEPIN 0] \<and>
                    sendOnEP0DATADONE_ptr s2 = None \<and>
                    (case epin_packet s2 0 of
                       Some p2 \<Rightarrow> p1 @ p2 = data
                     | None \<Rightarrow> False)
                | Panics e \<Rightarrow> False
                | Hangs \<Rightarrow> False)
           | None \<Rightarrow> False)
      | Panics e \<Rightarrow> False
      | Hangs \<Rightarrow> False)"

text \<open>An interrupt in which exactly one kind of event is latched.\<close>

definition no_ENDEPOUT_from :: "nat \<Rightarrow> state \<Rightarrow> bool" where
  "no_ENDEPOUT_from i s = (\<forall>j \<in> set [i..<length endPoints]. EVENTS_ENDEPOUT s j = 0)"

definition only_USBEVENT :: "state \<Rightarrow> bool" where
  "only_USBEVENT s =
     (EVENTS_USBEVENT s = 1 \<and> EVENTS_EP0DATADONE s \<noteq> 1 \<and> EVENTS_EP0SETUP s \<noteq> 1 \<and>
      EVENTS_EPDATA s = 0 \<and> no_ENDEPOUT_from 0 s)"

definition only_EP0SETUP :: "state \<Rightarrow> bool" where
  "only_EP0SETUP s =
     (EVENTS_USBEVENT s \<noteq> 1 \<and> EVENTS_EP0DATADONE s \<noteq> 1 \<and> EVENTS_EP0SETUP s = 1 \<and>
      EVENTS_EPDATA s = 0 \<and> no_ENDEPOUT_from 0 s)"

definition only_ENDEPOUT0 :: "state \<Rightarrow> bool" where
  "only_ENDEPOUT0 s =
     (EVENTS_USBEVENT s \<noteq> 1 \<and> EVENTS_EP0DATADONE s \<noteq> 1 \<and> EVENTS_EP0SETUP s \<noteq> 1 \<and>
      EVENTS_EPDATA s = 0 \<and> EVENTS_ENDEPOUT s 0 > 0 \<and> no_ENDEPOUT_from 1 s)"

text \<open>The request codes that \<^verbatim>\<open>handleStandardSetup\<close> has a case for.\<close>

definition standard_cases :: "u8 list" where
  "standard_cases =
     [usb_GET_STATUS, usb_CLEAR_FEATURE, usb_SET_FEATURE, usb_SET_ADDRESS,
      usb_GET_DESCRIPTOR, usb_SET_DESCRIPTOR, usb_GET_CONFIGURATION, usb_SET_CONFIGURATION,
      usb_GET_INTERFACE, usb_SET_INTERFACE]"

section \<open>Facts about the model\<close>

subsection \<open>Outcomes and the busy flag\<close>

lemma andThen_simps [simp]:
  "andThen (Returns x) f = f x"
  "andThen (Panics e) f = Panics e"
  "andThen Hangs f = Hangs"
  by (simp_all add: andThen_def)

lemma waitForEasyDMA_clear: "\<not> HasBits (easyDMABusy s) 1 \<Longrightarrow> waitForEasyDMA s = Some s"
  by (subst waitForEasyDMA.simps) simp

lemma waitForEasyDMA_Some: "waitForEasyDMA s = Some y \<Longrightarrow> \<not> HasBits (easyDMABusy s) 1"
  by (rule waitForEasyDMA.raw_induct [where P = "\<lambda>s y. \<not> HasBits (easyDMABusy s) 1"])
     (auto split: if_splits)

lemma waitForEasyDMA_eq [code]:
  "waitForEasyDMA s = (if HasBits (easyDMABusy s) 1 then None else Some s)"
proof (cases "HasBits (easyDMABusy s) 1")
  case True
  then show ?thesis using waitForEasyDMA_Some [of s] by (cases "waitForEasyDMA s") auto
next
  case False
  then show ?thesis by (simp add: waitForEasyDMA_clear)
qed

lemma enterCriticalSection_eq:
  "enterCriticalSection s =
     (if HasBits (easyDMABusy s) 1 then Hangs
      else Returns (s\<lparr>easyDMABusy := SetBits (easyDMABusy s) 1\<rparr>))"
  by (simp add: enterCriticalSection_def waitForEasyDMA_eq)

lemma HasBits_SetBits [simp]: "HasBits (SetBits r 1) 1"
proof -
  have "(r OR 1) AND 1 = (1 :: u8)"
    by (simp add: bit.conj_disj_distrib2)
  then show ?thesis by (simp add: HasBits_def SetBits_def)
qed

lemma HasBits_ClearBits [simp]: "\<not> HasBits (ClearBits r 1) 1"
proof -
  have "(r AND NOT 1) AND 1 = (0 :: u8)"
    by (simp add: and.assoc)
  then show ?thesis by (simp add: HasBits_def ClearBits_def)
qed

subsection \<open>C2: the busy flag and the transfers in flight\<close>

text \<open>
  Claim C2 says that, whatever the interleaving of the foreground's calls of
  \<^verbatim>\<open>enterCriticalSection\<close> with the interrupt's calls of \<^verbatim>\<open>exitCriticalSection\<close>, the
  busy flag is never set twice without a clear in between, so that at most one transfer
  guarded by the flag is in flight. The comment on \<^verbatim>\<open>enterCriticalSection\<close> says the
  same: only one thing can be done with the DMA unit at a time. The code does not do
  that. With the port open, \<^verbatim>\<open>WriteByte\<close> takes the flag and starts an IN transfer on
  endpoint 3. An interrupt that finds only \<^verbatim>\<open>ENDEPOUT[0]\<close> latched (no IN-done event)
  calls \<^verbatim>\<open>exitCriticalSection\<close>, as it does for every \<^verbatim>\<open>ENDEPOUT\<close> event, and clears
  the flag. The next \<^verbatim>\<open>WriteByte\<close> then returns and starts a second IN transfer on
  endpoint 3 while the first has not completed. Moreover the handler itself calls
  \<^verbatim>\<open>enterCriticalSection\<close>: from a state in which \<^verbatim>\<open>waitForEasyDMA\<close> has returned in the
  foreground, an interrupt with OUT-done on endpoint 2 sets the flag and starts an OUT
  transfer, so that the foreground's \<^verbatim>\<open>SetBits\<close>, which comes next, finds the flag set.
\<close>

theorem busy_flag_released_early:
  "(case WriteByte 0x41 (boot\<lparr>usbLineInfo := (usbLineInfo boot)\<lparr>lineState := 1\<rparr>\<rparr>) of
      Returns (e1, s1) \<Rightarrow>
        HasBits (easyDMABusy s1) 1 \<and>
        tasks s1 = [TASKS_STARTEPIN 3] \<and>
        EVENTS_EPDATA s1 = 0 \<and>
        (case handleInterrupt sample_decls
                (s1\<lparr>EVENTS_ENDEPOUT := (\<lambda>i. if i = 0 then 1 else 0)\<rparr>) of
           Returns s2 \<Rightarrow>
             \<not> HasBits (easyDMABusy s2) 1 \<and>
             (case WriteByte 0x42 s2 of
                Returns (e3, s3) \<Rightarrow>
                  filter is_STARTEPIN (tasks s3) = [TASKS_STARTEPIN 3, TASKS_STARTEPIN 3]
              | Panics e \<Rightarrow> False
              | Hangs \<Rightarrow> False)
         | Panics e \<Rightarrow> False
         | Hangs \<Rightarrow> False)
    | Panics e \<Rightarrow> False
    | Hangs \<Rightarrow> False) \<and>
   (case waitForEasyDMA (boot\<lparr>usbLineInfo := (usbLineInfo boot)\<lparr>lineState := 1\<rparr>\<rparr>) of
      Some s0 \<Rightarrow>
        \<not> HasBits (easyDMABusy s0) 1 \<and>
        (case handleInterrupt sample_decls
                (s0\<lparr>EVENTS_EPDATA := 1,
                    EPDATASTATUS := push_bit 1 nrf_USBD_EPDATASTATUS_EPOUT1\<rparr>) of
           Returns s1 \<Rightarrow>
             HasBits (easyDMABusy s1) 1 \<and>
             tasks s1 = [TASKS_STARTEPOUT 2] \<and>
             SetBits (easyDMABusy s1) 1 = easyDMABusy s1
         | Panics e \<Rightarrow> False
         | Hangs \<Rightarrow> False)
    | None \<Rightarrow> False)"
  by code_simp

subsection \<open>What \<^verbatim>\<open>sendUSBPacket\<close> stages and what the DMA engine reads\<close>

lemma unat_word_of_int_32:
  "0 \<le> i \<Longrightarrow> i < 2 ^ 32 \<Longrightarrow> unat (word_of_int i :: u32) = nat i"
  by (simp add: unat_eq_nat_uint uint_word_of_int take_bit_eq_mod)

lemma sendUSBPacket_long:
  "64 < length data \<Longrightarrow>
   sendUSBPacket 0 data s =
     Returns (s\<lparr>udd_ep_in_cache_buffer :=
                  (udd_ep_in_cache_buffer s)(0 := copy_row (udd_ep_in_cache_buffer s 0) data),
                sendOnEP0DATADONE_ptr := Some (InCache 0 64),
                sendOnEP0DATADONE_count := int (length data) - 64,
                EPIN_PTR := (EPIN_PTR s)(0 := Some (InCache 0 0)),
                EPIN_MAXCNT := (EPIN_MAXCNT s)(0 := 64),
                tasks := tasks s @ [TASKS_STARTEPIN 0]\<rparr>)"
  by (simp add: sendUSBPacket_def sendViaEPIn_def usbEndpointPacketSize_def Let_def)

lemma sendUSBPacket_short:
  "length data \<le> 64 \<Longrightarrow>
   sendUSBPacket 0 data s =
     Returns (s\<lparr>udd_ep_in_cache_buffer :=
                  (udd_ep_in_cache_buffer s)(0 := copy_row (udd_ep_in_cache_buffer s 0) data),
                EPIN_PTR := (EPIN_PTR s)(0 := Some (InCache 0 0)),
                EPIN_MAXCNT := (EPIN_MAXCNT s)(0 := of_nat (length data)),
                tasks := tasks s @ [TASKS_STARTEPIN 0]\<rparr>)"
  by (simp add: sendUSBPacket_def sendViaEPIn_def usbEndpointPacketSize_def Let_def)

lemma sendUSBPacket_0_returns:
  "\<exists>s1. sendUSBPacket 0 data s = Returns s1 \<and>
     udd_ep_in_cache_buffer s1 =
       (udd_ep_in_cache_buffer s)(0 := copy_row (udd_ep_in_cache_buffer s 0) data) \<and>
     (64 < length data \<longrightarrow>
        sendOnEP0DATADONE_ptr s1 = Some (InCache 0 64) \<and>
        sendOnEP0DATADONE_count s1 = int (length data) - 64)"
  by (cases "64 < length data") (simp_all add: sendUSBPacket_long sendUSBPacket_short)

text \<open>A read that stays inside the bytes copied into row 0.\<close>

lemma dma_read_row0:
  assumes "udd_ep_in_cache_buffer s 0 = copy_row r data" "i + n \<le> length data" "length data \<le> 128"
  shows "dma_read s (InCache 0 i) n = (if i < 128 then Some (take n (drop i data)) else None)"
proof (cases "i < 128")
  case True
  have "map (\<lambda>k. in_cache_byte s (i + k)) [0..<n] = take n (drop i data)"
  proof (rule nth_equalityI)
    show "length (map (\<lambda>k. in_cache_byte s (i + k)) [0..<n]) = length (take n (drop i data))"
      using assms by simp
  next
    fix k assume "k < length (map (\<lambda>k. in_cache_byte s (i + k)) [0..<n])"
    then have k: "k < n" by simp
    with assms have "i + k < 128" "i + k < length data" by simp_all
    with k assms show "map (\<lambda>k. in_cache_byte s (i + k)) [0..<n] ! k = take n (drop i data) ! k"
      by (simp add: in_cache_byte_def copy_row_def)
  qed
  with True assms show ?thesis by simp
next
  case False
  then show ?thesis by simp
qed

text \<open>A read from byte 64 of row 0 that runs past the end of the row: the second half of
  the row, then what the following rows held before the call.\<close>

lemma dma_read_past_row0:
  assumes row: "udd_ep_in_cache_buffer s1 =
       (udd_ep_in_cache_buffer s)(0 := copy_row (udd_ep_in_cache_buffer s 0) data)"
    and big: "128 < length data" and inside: "length data \<le> 7 * 128"
  shows "dma_read s1 (InCache 0 64) (length data - 64) =
           Some (take 64 (drop 64 data) @ map (in_cache_byte s) [128..<length data])"
proof -
  have "map (\<lambda>k. in_cache_byte s1 (64 + k)) [0..<length data - 64] =
        take 64 (drop 64 data) @ map (in_cache_byte s) [128..<length data]"
  proof (rule nth_equalityI)
    show "length (map (\<lambda>k. in_cache_byte s1 (64 + k)) [0..<length data - 64]) =
          length (take 64 (drop 64 data) @ map (in_cache_byte s) [128..<length data])"
      using big by simp
  next
    fix k assume "k < length (map (\<lambda>k. in_cache_byte s1 (64 + k)) [0..<length data - 64])"
    then have k: "k < length data - 64" by simp
    show "map (\<lambda>k. in_cache_byte s1 (64 + k)) [0..<length data - 64] ! k =
          (take 64 (drop 64 data) @ map (in_cache_byte s) [128..<length data]) ! k"
    proof (cases "k < 64")
      case True
      with k big show ?thesis
        by (simp add: nth_append in_cache_byte_def row copy_row_def)
    next
      case False
      then have "(64 + k) div 128 \<noteq> 0" by simp
      with False k big show ?thesis
        by (simp add: nth_append in_cache_byte_def row)
    qed
  qed
  with big inside show ?thesis by simp
qed

text \<open>The bus-ready part of the handler starts no IN transfer and leaves the staging
  array, the recorded continuation, the line coding and the other event flags alone.\<close>

lemma USBEVENT_frame:
  "\<exists>s' ts. handleInterrupt_USBEVENT s = Returns s' \<and>
     tasks s' = tasks s @ ts \<and> filter is_STARTEPIN ts = [] \<and>
     udd_ep_in_cache_buffer s' = udd_ep_in_cache_buffer s \<and>
     sendOnEP0DATADONE_ptr s' = sendOnEP0DATADONE_ptr s \<and>
     sendOnEP0DATADONE_count s' = sendOnEP0DATADONE_count s \<and>
     epout0data_setlinecoding s' = epout0data_setlinecoding s \<and>
     EVENTS_EP0DATADONE s' = EVENTS_EP0DATADONE s \<and>
     usbLineInfo s' = usbLineInfo s"
  by (simp add: handleInterrupt_USBEVENT_def initEndpoint_def trigger_def enableEPOut_def
      enableEPIn_def Let_def usb_ENDPOINT_TYPE_CONTROL_def usb_ENDPOINT_TYPE_INTERRUPT_def
      usb_ENDPOINT_TYPE_BULK_def usbEndpointIn_def usbEndpointOut_def)

lemma EP0DATADONE_continuation:
  assumes "\<not> epout0data_setlinecoding s" "sendOnEP0DATADONE_ptr s = Some a"
  shows "handleInterrupt_EP0DATADONE s =
     Returns (s\<lparr>EVENTS_EP0DATADONE := 0,
                EPIN_PTR := (EPIN_PTR s)(0 := Some a),
                EPIN_MAXCNT := (EPIN_MAXCNT s)(0 := word_of_int (sendOnEP0DATADONE_count s)),
                tasks := tasks s @ [TASKS_STARTEPIN 0],
                sendOnEP0DATADONE_ptr := None\<rparr>)"
  using assms by (simp add: handleInterrupt_EP0DATADONE_def sendViaEPIn_def Let_def)

subsection \<open>C1: a control response in two packets\<close>

text \<open>
  Claim C1, as amended. For every control-endpoint response of more than 64 and at most
  128 bytes (the size of a staging row) that is passed to \<^verbatim>\<open>sendUSBPacket\<close> while no
  \<^verbatim>\<open>SET_LINE_CODING\<close> data phase is pending, the device starts one IN transfer of exactly
  64 bytes, records the remainder in \<^verbatim>\<open>sendOnEP0DATADONE\<close>, and the interrupt that finds
  the EP0-data-done event latched starts exactly one more IN transfer, of the remainder,
  and clears the record; the two packets concatenated are the response, in order.
\<close>

theorem two_packet_delivery_within_staging:
  assumes long: "64 < length data" and fits: "length data \<le> 128"
    and idle: "\<not> epout0data_setlinecoding s"
  shows "two_packet_delivery d data s"
proof -
  define s1 where "s1 = s\<lparr>udd_ep_in_cache_buffer :=
                  (udd_ep_in_cache_buffer s)(0 := copy_row (udd_ep_in_cache_buffer s 0) data),
                sendOnEP0DATADONE_ptr := Some (InCache 0 64),
                sendOnEP0DATADONE_count := int (length data) - 64,
                EPIN_PTR := (EPIN_PTR s)(0 := Some (InCache 0 0)),
                EPIN_MAXCNT := (EPIN_MAXCNT s)(0 := 64),
                tasks := tasks s @ [TASKS_STARTEPIN 0]\<rparr>"
  have send: "sendUSBPacket 0 data s = Returns s1"
    using long by (simp add: s1_def sendUSBPacket_long)
  have row1: "udd_ep_in_cache_buffer s1 0 = copy_row (udd_ep_in_cache_buffer s 0) data"
    by (simp add: s1_def)
  have p1: "epin_packet s1 0 = Some (take 64 data)"
    using dma_read_row0 [OF row1, of 0 64] long fits by (simp add: epin_packet_def s1_def)
  obtain su ts where su: "handleInterrupt_USBEVENT (s1\<lparr>EVENTS_EP0DATADONE := 1\<rparr>) = Returns su"
    and ts: "tasks su = tasks s1 @ ts" "filter is_STARTEPIN ts = []"
    and rowu: "udd_ep_in_cache_buffer su = udd_ep_in_cache_buffer s1"
    and ptru: "sendOnEP0DATADONE_ptr su = Some (InCache 0 64)"
    and cntu: "sendOnEP0DATADONE_count su = int (length data) - 64"
    and idleu: "\<not> epout0data_setlinecoding su"
    and evu: "EVENTS_EP0DATADONE su = 1"
    using USBEVENT_frame [of "s1\<lparr>EVENTS_EP0DATADONE := 1\<rparr>"] idle by (auto simp: s1_def)
  define s2 where "s2 = su\<lparr>EVENTS_EP0DATADONE := 0,
                EPIN_PTR := (EPIN_PTR su)(0 := Some (InCache 0 64)),
                EPIN_MAXCNT := (EPIN_MAXCNT su)(0 := word_of_int (int (length data) - 64)),
                tasks := tasks su @ [TASKS_STARTEPIN 0],
                sendOnEP0DATADONE_ptr := None\<rparr>"
  have hi: "handleInterrupt d (s1\<lparr>EVENTS_EP0DATADONE := 1\<rparr>) = Returns s2"
    using EP0DATADONE_continuation [OF idleu ptru] su evu cntu
    by (simp add: handleInterrupt_def s2_def)
  have row2: "udd_ep_in_cache_buffer s2 0 = copy_row (udd_ep_in_cache_buffer s 0) data"
    by (simp add: s2_def rowu row1)
  have "0 \<le> int (length data) - 64" "int (length data) - 64 < 2 ^ 32"
    using long fits by auto
  from unat_word_of_int_32 [OF this]
  have cnt: "unat (word_of_int (int (length data) - 64) :: u32) = length data - 64"
    using long by simp
  then have cnt': "unat (word_of_nat (length data) - 64 :: u32) = length data - 64"
    by simp
  have p2: "epin_packet s2 0 = Some (drop 64 data)"
    using dma_read_row0 [OF row2, of 64 "length data - 64"] long fits
    by (simp add: epin_packet_def s2_def cnt cnt')
  have st1: "starts_since s s1 = [TASKS_STARTEPIN 0]"
    by (simp add: starts_since_def s1_def)
  have st2: "starts_since s1 s2 = [TASKS_STARTEPIN 0]"
    using ts by (simp add: starts_since_def s2_def)
  show ?thesis
    unfolding two_packet_delivery_def
    using long by (simp add: send p1 hi p2 st1 st2 s1_def [symmetric]) (simp add: s1_def s2_def)
qed

theorem two_packet_delivery_within_staging_witness:
  "64 < length (replicate 70 (1 :: u8)) \<and> length (replicate 70 (1 :: u8)) \<le> 128 \<and>
   \<not> epout0data_setlinecoding boot \<and>
   two_packet_delivery sample_decls (replicate 70 1) boot"
  using two_packet_delivery_within_staging [of "replicate 70 1" boot sample_decls]
  by (simp add: boot_def)

text \<open>The claim as stated fails for a response of 129 bytes: the continuation is 65
  bytes read from byte 64 of row 0, and its last byte is byte 0 of row 1, which the
  response was never copied to. It also fails for a response of 70 bytes sent while a
  \<^verbatim>\<open>SET_LINE_CODING\<close> data phase is pending: the next EP0-data-done event starts the OUT
  transfer of that data phase and returns.\<close>

theorem two_packet_delivery_counterexample:
  "64 < length (replicate 129 (1 :: u8)) \<and>
   \<not> two_packet_delivery sample_decls (replicate 129 1) boot \<and>
   64 < length (replicate 70 (1 :: u8)) \<and>
   \<not> two_packet_delivery sample_decls (replicate 70 1) (boot\<lparr>epout0data_setlinecoding := True\<rparr>)"
  by code_simp

subsection \<open>C10: the staging row bounds the response\<close>

text \<open>
  Claim C10. A call of \<^verbatim>\<open>sendUSBPacket\<close> on the control endpoint returns, and the bytes
  it makes available are bounded by the staging row of 128 bytes: the row holds the first
  \<open>min 128 (len data)\<close> bytes of the response (all of it when it has at most 128
  bytes, only the first 128 otherwise) and no other row changes, while for a response of
  more than 64 bytes the recorded continuation count is \<open>len data - 64\<close> whatever the
  length. So with at most 128 bytes the initial 64 bytes and the continuation together are
  the response; with more, the continuation is bytes 64 to 127 of the response followed by
  what the rows after row 0 held before the call, bytes that were never copied from the
  response.
\<close>

theorem staging_row_bounds_response:
  "\<exists>s1. sendUSBPacket 0 data s = Returns s1 \<and>
     map (udd_ep_in_cache_buffer s1 0) [0..<min 128 (length data)] = take 128 data \<and>
     (\<forall>ep i. ep \<noteq> 0 \<longrightarrow> udd_ep_in_cache_buffer s1 ep i = udd_ep_in_cache_buffer s ep i) \<and>
     (64 < length data \<longrightarrow>
        sendOnEP0DATADONE_ptr s1 = Some (InCache 0 64) \<and>
        sendOnEP0DATADONE_count s1 = int (length data) - 64) \<and>
     (64 < length data \<and> length data \<le> 128 \<longrightarrow>
        dma_read s1 (InCache 0 0) 64 = Some (take 64 data) \<and>
        dma_read s1 (InCache 0 64) (nat (sendOnEP0DATADONE_count s1)) = Some (drop 64 data)) \<and>
     (128 < length data \<and> length data \<le> 7 * 128 \<longrightarrow>
        dma_read s1 (InCache 0 64) (nat (sendOnEP0DATADONE_count s1)) =
          Some (take 64 (drop 64 data) @ map (in_cache_byte s) [128..<length data]))"
proof -
  obtain s1 where s1: "sendUSBPacket 0 data s = Returns s1"
    and row: "udd_ep_in_cache_buffer s1 =
       (udd_ep_in_cache_buffer s)(0 := copy_row (udd_ep_in_cache_buffer s 0) data)"
    and rec: "64 < length data \<longrightarrow>
        sendOnEP0DATADONE_ptr s1 = Some (InCache 0 64) \<and>
        sendOnEP0DATADONE_count s1 = int (length data) - 64"
    using sendUSBPacket_0_returns [of data s] by blast
  have staged: "map (udd_ep_in_cache_buffer s1 0) [0..<min 128 (length data)] = take 128 data"
    by (rule nth_equalityI) (simp_all add: row copy_row_def)
  have others: "\<forall>ep i. ep \<noteq> 0 \<longrightarrow> udd_ep_in_cache_buffer s1 ep i = udd_ep_in_cache_buffer s ep i"
    by (simp add: row)
  have row0: "udd_ep_in_cache_buffer s1 0 = copy_row (udd_ep_in_cache_buffer s 0) data"
    by (simp add: row)
  have fits: "64 < length data \<and> length data \<le> 128 \<longrightarrow>
        dma_read s1 (InCache 0 0) 64 = Some (take 64 data) \<and>
        dma_read s1 (InCache 0 64) (nat (sendOnEP0DATADONE_count s1)) = Some (drop 64 data)"
  proof
    assume a: "64 < length data \<and> length data \<le> 128"
    then have n: "nat (sendOnEP0DATADONE_count s1) = length data - 64"
      using rec by simp
    from a dma_read_row0 [OF row0, of 0 64] dma_read_row0 [OF row0, of 64 "length data - 64"]
    show "dma_read s1 (InCache 0 0) 64 = Some (take 64 data) \<and>
        dma_read s1 (InCache 0 64) (nat (sendOnEP0DATADONE_count s1)) = Some (drop 64 data)"
      by (simp add: n)
  qed
  have over: "128 < length data \<and> length data \<le> 7 * 128 \<longrightarrow>
        dma_read s1 (InCache 0 64) (nat (sendOnEP0DATADONE_count s1)) =
          Some (take 64 (drop 64 data) @ map (in_cache_byte s) [128..<length data])"
  proof
    assume a: "128 < length data \<and> length data \<le> 7 * 128"
    then have n: "nat (sendOnEP0DATADONE_count s1) = length data - 64"
      using rec by simp
    from a dma_read_past_row0 [OF row]
    show "dma_read s1 (InCache 0 64) (nat (sendOnEP0DATADONE_count s1)) =
          Some (take 64 (drop 64 data) @ map (in_cache_byte s) [128..<length data])"
      by (simp only: n)
  qed
  from s1 staged others rec fits over show ?thesis by blast
qed

theorem staging_row_bounds_response_witness:
  "(64 < length (replicate 70 (1 :: u8)) \<and> length (replicate 70 (1 :: u8)) \<le> 128 \<and>
    (\<exists>s1. sendUSBPacket 0 (replicate 70 1) boot = Returns s1 \<and>
       dma_read s1 (InCache 0 64) (nat (sendOnEP0DATADONE_count s1)) = Some (replicate 6 1))) \<and>
   (128 < length (replicate 129 (1 :: u8)) \<and> length (replicate 129 (1 :: u8)) \<le> 7 * 128 \<and>
    (\<exists>s1. sendUSBPacket 0 (replicate 129 1) boot = Returns s1 \<and>
       sendOnEP0DATADONE_count s1 = 65 \<and>
       dma_read s1 (InCache 0 64) (nat (sendOnEP0DATADONE_count s1)) = Some (replicate 64 1 @ [0])))"
proof -
  have b: "in_cache_byte boot 128 = 0"
    by (simp add: in_cache_byte_def boot_def)
  from staging_row_bounds_response [of "replicate 70 1" boot]
    staging_row_bounds_response [of "replicate 129 1" boot]
  show ?thesis
    by (auto simp: b)
qed

subsection \<open>Responses of one packet\<close>

lemma sendUSBPacket_response:
  assumes "length data \<le> 64"
  shows "\<exists>s1. sendUSBPacket 0 data s = Returns s1 \<and> epin_packet s1 0 = Some data \<and>
           tasks s1 = tasks s @ [TASKS_STARTEPIN 0]"
proof -
  define s1 where "s1 = s\<lparr>udd_ep_in_cache_buffer :=
                  (udd_ep_in_cache_buffer s)(0 := copy_row (udd_ep_in_cache_buffer s 0) data),
                EPIN_PTR := (EPIN_PTR s)(0 := Some (InCache 0 0)),
                EPIN_MAXCNT := (EPIN_MAXCNT s)(0 := of_nat (length data)),
                tasks := tasks s @ [TASKS_STARTEPIN 0]\<rparr>"
  have send: "sendUSBPacket 0 data s = Returns s1"
    using assms by (simp add: s1_def sendUSBPacket_short)
  have row: "udd_ep_in_cache_buffer s1 0 = copy_row (udd_ep_in_cache_buffer s 0) data"
    by (simp add: s1_def)
  have n: "unat (of_nat (length data) :: u32) = length data"
    using assms by (simp add: unat_of_nat)
  have "epin_packet s1 0 = Some data"
    using dma_read_row0 [OF row, of 0 "length data"] assms
    by (simp add: epin_packet_def s1_def n)
  with send show ?thesis by (simp add: s1_def)
qed

subsection \<open>C9: the response to \<^verbatim>\<open>GET_STATUS\<close>\<close>

text \<open>What the code sends for every \<^verbatim>\<open>GET_STATUS\<close>: two bytes, the second 0, the first
  1 exactly when \<^verbatim>\<open>bmRequestType\<close> is not 0 and \<^verbatim>\<open>isEndpointHalt\<close> is set. The test is
  on the whole of \<^verbatim>\<open>bmRequestType\<close>, not on its recipient bits, and a \<^verbatim>\<open>GET_STATUS\<close> is a
  device-to-host request, whose \<^verbatim>\<open>bmRequestType\<close> has bit 7 set.\<close>

lemma GET_STATUS_response:
  assumes "bRequest setup = usb_GET_STATUS"
  shows "response (handleStandardSetup d setup s) =
           Some [if bmRequestType setup \<noteq> 0 \<and> isEndpointHalt s then 1 else 0, 0]"
proof -
  let ?buf = "[if bmRequestType setup \<noteq> 0 \<and> isEndpointHalt s then 1 else 0, 0 :: u8]"
  obtain s1 where "sendUSBPacket 0 ?buf s = Returns s1" "epin_packet s1 0 = Some ?buf"
    using sendUSBPacket_response [of ?buf s] by auto
  with assms show ?thesis
    by (auto simp: handleStandardSetup_def response_def Let_def)
qed

text \<open>
  Claim C9 says that the response to \<^verbatim>\<open>GET_STATUS\<close> is two bytes, the second 0, and
  that bit 0 of the first is the endpoint-halt flag when the recipient is an endpoint and
  0 when the recipient is the device or an interface. The code does not do that: for the
  request with \<^verbatim>\<open>bmRequestType = 0x80\<close> (device to host, standard, recipient device), sent
  while the endpoint-halt flag is set, the response is \<open>[1, 0]\<close>.
\<close>

theorem GET_STATUS_device_reports_halt:
  "bmRequestType \<lparr>bmRequestType = 0x80, bRequest = usb_GET_STATUS, wValueL = 0, wValueH = 0,
       wIndex = 0, wLength = 2\<rparr> AND usb_REQUEST_RECIPIENT = usb_REQUEST_DEVICE \<and>
   response (handleStandardSetup sample_decls
     \<lparr>bmRequestType = 0x80, bRequest = usb_GET_STATUS, wValueL = 0, wValueH = 0,
       wIndex = 0, wLength = 2\<rparr> (boot\<lparr>isEndpointHalt := True\<rparr>)) = Some [1, 0]"
  by code_simp

subsection \<open>C3: the device descriptor\<close>

text \<open>
  Claim C3, as amended. For every standard \<^verbatim>\<open>GET_DESCRIPTOR\<close> request for the device
  descriptor with \<^verbatim>\<open>wLength == 8\<close>, the response is the 8 bytes
  \<open>[18, 1, 0x00, 0x02, 0xEF, 0x02, 0x01, 64]\<close>: the first 8 bytes of a device descriptor
  of class 0xEF, subclass 0x02, protocol 0x01. With any other \<^verbatim>\<open>wLength\<close> the response
  is the full descriptor of 18 bytes, of class 0x02, subclass 0 and protocol 0, whose
  first 8 bytes are \<open>[18, 1, 0x00, 0x02, 0x02, 0x00, 0x00, 64]\<close>. The two agree in
  the bytes 0 to 3 and 7 and differ in the bytes 4 to 6.
\<close>

theorem device_descriptor_responses:
  assumes "bRequest setup = usb_GET_DESCRIPTOR" "wValueH setup = usb_DEVICE_DESCRIPTOR_TYPE"
  shows "(wLength setup = 8 \<longrightarrow>
            response (handleStandardSetup d setup s) =
              Some [18, 1, 0x00, 0x02, 0xEF, 0x02, 0x01, 64]) \<and>
         (wLength setup \<noteq> 8 \<longrightarrow>
            (\<exists>full. response (handleStandardSetup d setup s) = Some full \<and>
               length full = 18 \<and>
               take 8 full = [18, 1, 0x00, 0x02, 0x02, 0x00, 0x00, 64]))"
proof -
  let ?short = "[18, 1, 0x00, 0x02, 0xEF, 0x02, 0x01, 64 :: u8]"
  let ?full = "DeviceDescriptor_Bytes
               (NewDeviceDescriptor 0x02 0x00 0x00 64 (usb_VID d) (usb_PID d) 0x100
                  usb_IMANUFACTURER usb_IPRODUCT usb_ISERIAL 1)"
  have cut: "slice_to (DeviceDescriptor_Bytes
                       (NewDeviceDescriptor 0xEF 0x02 0x01 64 (usb_VID d) (usb_PID d) 0x100
                          usb_IMANUFACTURER usb_IPRODUCT usb_ISERIAL 1)) 8 = Returns ?short"
    by (simp add: slice_to_def DeviceDescriptor_Bytes_def NewDeviceDescriptor_def le16_def)
  have len: "length ?full = 18" and pre: "take 8 ?full = [18, 1, 0x00, 0x02, 0x02, 0x00, 0x00, 64]"
    by (simp_all add: DeviceDescriptor_Bytes_def NewDeviceDescriptor_def le16_def)
  obtain s1 where s1: "sendUSBPacket 0 ?short s = Returns s1" "epin_packet s1 0 = Some ?short"
    using sendUSBPacket_response [of ?short s] by auto
  obtain s2 where s2: "sendUSBPacket 0 ?full s = Returns s2" "epin_packet s2 0 = Some ?full"
    using sendUSBPacket_response [of ?full s] len by auto
  have disp: "handleStandardSetup d setup s =
          andThen (sendDescriptor d setup s) (\<lambda>s1. Returns (True, s1))"
    using assms(1)
    by (simp add: handleStandardSetup_def usb_GET_DESCRIPTOR_def usb_GET_STATUS_def
        usb_CLEAR_FEATURE_def usb_SET_FEATURE_def usb_SET_ADDRESS_def)
  have branch: "sendDescriptor d setup s =
          (if wLength setup = 8 then Returns s1 else Returns s2)"
    using assms(2) s1(1) s2(1) cut
    by (simp add: sendDescriptor_def usb_DEVICE_DESCRIPTOR_TYPE_def
        usb_CONFIGURATION_DESCRIPTOR_TYPE_def)
  show ?thesis
    using s1(2) s2(2) len pre by (simp add: disp branch response_def)
qed

theorem device_descriptor_responses_witness:
  "bRequest \<lparr>bmRequestType = 0x80, bRequest = usb_GET_DESCRIPTOR, wValueL = 0,
       wValueH = usb_DEVICE_DESCRIPTOR_TYPE, wIndex = 0, wLength = 8\<rparr> = usb_GET_DESCRIPTOR \<and>
   wValueH \<lparr>bmRequestType = 0x80, bRequest = usb_GET_DESCRIPTOR, wValueL = 0,
       wValueH = usb_DEVICE_DESCRIPTOR_TYPE, wIndex = 0, wLength = 8\<rparr> = usb_DEVICE_DESCRIPTOR_TYPE \<and>
   response (handleStandardSetup sample_decls
      \<lparr>bmRequestType = 0x80, bRequest = usb_GET_DESCRIPTOR, wValueL = 0,
       wValueH = usb_DEVICE_DESCRIPTOR_TYPE, wIndex = 0, wLength = 8\<rparr> boot) =
     Some [18, 1, 0x00, 0x02, 0xEF, 0x02, 0x01, 64] \<and>
   (\<exists>full. response (handleStandardSetup sample_decls
      \<lparr>bmRequestType = 0x80, bRequest = usb_GET_DESCRIPTOR, wValueL = 0,
       wValueH = usb_DEVICE_DESCRIPTOR_TYPE, wIndex = 0, wLength = 18\<rparr> boot) = Some full \<and>
      take 8 full = [18, 1, 0x00, 0x02, 0x02, 0x00, 0x00, 64])"
  using device_descriptor_responses [of "\<lparr>bmRequestType = 0x80, bRequest = usb_GET_DESCRIPTOR,
       wValueL = 0, wValueH = usb_DEVICE_DESCRIPTOR_TYPE, wIndex = 0, wLength = 8\<rparr>"
       sample_decls boot]
    device_descriptor_responses [of "\<lparr>bmRequestType = 0x80, bRequest = usb_GET_DESCRIPTOR,
       wValueL = 0, wValueH = usb_DEVICE_DESCRIPTOR_TYPE, wIndex = 0, wLength = 18\<rparr>"
       sample_decls boot]
  by auto

text \<open>The claim as stated fails: the response to the request with \<^verbatim>\<open>wLength == 8\<close> is
  not the first 8 bytes of the response to the request with \<^verbatim>\<open>wLength == 18\<close>.\<close>

theorem device_descriptor_prefix_counterexample:
  "response (handleStandardSetup sample_decls
      \<lparr>bmRequestType = 0x80, bRequest = usb_GET_DESCRIPTOR, wValueL = 0,
       wValueH = usb_DEVICE_DESCRIPTOR_TYPE, wIndex = 0, wLength = 8\<rparr> boot) \<noteq>
   map_option (take 8) (response (handleStandardSetup sample_decls
      \<lparr>bmRequestType = 0x80, bRequest = usb_GET_DESCRIPTOR, wValueL = 0,
       wValueH = usb_DEVICE_DESCRIPTOR_TYPE, wIndex = 0, wLength = 18\<rparr> boot))"
  by code_simp

subsection \<open>An interrupt with one kind of event latched\<close>

declare handleInterrupt_ENDEPOUT_from.simps [simp del]
declare handleInterrupt_EPDATA_from.simps [simp del]
declare initEndpoints_from.simps [simp del]
declare handleEndpoint_from.simps [simp del]

lemma length_endPoints [simp]: "length endPoints = 4"
  by (simp add: endPoints_def)

lemma no_ENDEPOUT_from_step:
  "i < 4 \<Longrightarrow> no_ENDEPOUT_from i s \<longleftrightarrow> EVENTS_ENDEPOUT s i = 0 \<and> no_ENDEPOUT_from (Suc i) s"
  by (auto simp: no_ENDEPOUT_from_def upt_conv_Cons)

lemma ENDEPOUT_at_none:
  "EVENTS_ENDEPOUT s i = 0 \<Longrightarrow> handleInterrupt_ENDEPOUT_at i s = Returns s"
  by (simp add: handleInterrupt_ENDEPOUT_at_def)

lemma ENDEPOUT_none:
  "no_ENDEPOUT_from i s \<Longrightarrow> handleInterrupt_ENDEPOUT_from i s = Returns s"
proof (induction i s rule: handleInterrupt_ENDEPOUT_from.induct)
  case (1 i s)
  show ?case
  proof (cases "i < 4")
    case True
    with "1.prems" have e: "EVENTS_ENDEPOUT s i = 0" and rest: "no_ENDEPOUT_from (i + 1) s"
      by (simp_all add: no_ENDEPOUT_from_step)
    from True e have "handleInterrupt_ENDEPOUT_from i s = handleInterrupt_ENDEPOUT_from (i + 1) s"
      by (subst handleInterrupt_ENDEPOUT_from.simps) (simp add: ENDEPOUT_at_none)
    also have "\<dots> = Returns s"
      using "1.IH" [of s] True rest by simp
    finally show ?thesis .
  next
    case False
    then show ?thesis by (subst handleInterrupt_ENDEPOUT_from.simps) simp
  qed
qed

lemma ENDEPOUT_only_0:
  assumes "handleInterrupt_ENDEPOUT_at 0 s = Returns s'" "no_ENDEPOUT_from 1 s'"
  shows "handleInterrupt_ENDEPOUT_from 0 s = Returns s'"
  using assms ENDEPOUT_none [of "Suc 0" s']
  by (subst handleInterrupt_ENDEPOUT_from.simps) simp

lemma EPDATA_none: "EVENTS_EPDATA s = 0 \<Longrightarrow> handleInterrupt_EPDATA s = Returns s"
  by (simp add: handleInterrupt_EPDATA_def)

lemma USBEVENT_none: "EVENTS_USBEVENT s \<noteq> 1 \<Longrightarrow> handleInterrupt_USBEVENT s = Returns s"
  by (simp add: handleInterrupt_USBEVENT_def)

lemma EP0SETUP_none: "EVENTS_EP0SETUP s \<noteq> 1 \<Longrightarrow> handleInterrupt_EP0SETUP d s = Returns s"
  by (simp add: handleInterrupt_EP0SETUP_def)

lemma USBEVENT_ready:
  assumes "EVENTS_USBEVENT s = 1" "EVENTCAUSE s AND nrf_USBD_EVENTCAUSE_READY > 0"
  shows "handleInterrupt_USBEVENT s =
     Returns (s\<lparr>EVENTS_USBEVENT := 0,
                epinen := epinen s OR nrf_USBD_EPINEN_IN0,
                EPINEN := epinen s OR nrf_USBD_EPINEN_IN0,
                epouten := epouten s OR nrf_USBD_EPOUTEN_OUT0,
                EPOUTEN := epouten s OR nrf_USBD_EPOUTEN_OUT0,
                tasks := tasks s @ [TASKS_EP0STATUS],
                INTENSET := nrf_USBD_INTENSET_EP0SETUP,
                USBPULLUP := 1,
                usbConfiguration := 0,
                EVENTCAUSE := 0\<rparr>)"
  using assms
  by (simp add: handleInterrupt_USBEVENT_def initEndpoint_def trigger_def enableEPOut_def
      enableEPIn_def Let_def usb_ENDPOINT_TYPE_CONTROL_def usb_ENDPOINT_TYPE_INTERRUPT_def
      usb_ENDPOINT_TYPE_BULK_def usbEndpointIn_def usbEndpointOut_def)


subsection \<open>C8: the bus-ready event\<close>

text \<open>
  Claim C8, as amended. On every bus-ready event (\<^verbatim>\<open>EVENTS_USBEVENT\<close> latched with the
  ready cause), the part of the handler that serves it returns, resets the configuration
  value to 0 and leaves the recorded continuation \<^verbatim>\<open>sendOnEP0DATADONE\<close> as it was:
  pointer and count are unchanged. When no other event is latched, that is the state in
  which the handler returns.
\<close>

theorem bus_ready_keeps_continuation:
  assumes "EVENTS_USBEVENT s = 1" "EVENTCAUSE s AND nrf_USBD_EVENTCAUSE_READY > 0"
  shows "\<exists>s'. handleInterrupt_USBEVENT s = Returns s' \<and> usbConfiguration s' = 0 \<and>
           sendOnEP0DATADONE_ptr s' = sendOnEP0DATADONE_ptr s \<and>
           sendOnEP0DATADONE_count s' = sendOnEP0DATADONE_count s \<and>
           (only_USBEVENT s \<longrightarrow> handleInterrupt d s = Returns s')"
proof -
  define s1 where "s1 = s\<lparr>EVENTS_USBEVENT := 0,
                epinen := epinen s OR nrf_USBD_EPINEN_IN0,
                EPINEN := epinen s OR nrf_USBD_EPINEN_IN0,
                epouten := epouten s OR nrf_USBD_EPOUTEN_OUT0,
                EPOUTEN := epouten s OR nrf_USBD_EPOUTEN_OUT0,
                tasks := tasks s @ [TASKS_EP0STATUS],
                INTENSET := nrf_USBD_INTENSET_EP0SETUP,
                USBPULLUP := 1,
                usbConfiguration := 0,
                EVENTCAUSE := 0\<rparr>"
  from assms have u: "handleInterrupt_USBEVENT s = Returns s1"
    by (simp add: s1_def USBEVENT_ready)
  have whole: "handleInterrupt d s = Returns s1" if only: "only_USBEVENT s"
  proof -
    from only have q: "EVENTS_EP0DATADONE s1 \<noteq> 1" "EVENTS_EP0SETUP s1 \<noteq> 1"
      "EVENTS_EPDATA s1 = 0" "no_ENDEPOUT_from 0 s1"
      by (simp_all add: s1_def only_USBEVENT_def no_ENDEPOUT_from_def)
    show ?thesis
      using u q by (simp add: handleInterrupt_def EP0SETUP_none EPDATA_none ENDEPOUT_none)
  qed
  from u whole show ?thesis by (simp add: s1_def)
qed

theorem bus_ready_keeps_continuation_witness:
  "EVENTS_USBEVENT (boot\<lparr>EVENTS_USBEVENT := 1, EVENTCAUSE := 0x800, usbConfiguration := 1,
       sendOnEP0DATADONE_ptr := Some (InCache 0 64), sendOnEP0DATADONE_count := 11\<rparr>) = 1 \<and>
   EVENTCAUSE (boot\<lparr>EVENTS_USBEVENT := 1, EVENTCAUSE := 0x800, usbConfiguration := 1,
       sendOnEP0DATADONE_ptr := Some (InCache 0 64), sendOnEP0DATADONE_count := 11\<rparr>)
     AND nrf_USBD_EVENTCAUSE_READY > 0 \<and>
   only_USBEVENT (boot\<lparr>EVENTS_USBEVENT := 1, EVENTCAUSE := 0x800, usbConfiguration := 1,
       sendOnEP0DATADONE_ptr := Some (InCache 0 64), sendOnEP0DATADONE_count := 11\<rparr>) \<and>
   (\<exists>s'. handleInterrupt sample_decls (boot\<lparr>EVENTS_USBEVENT := 1, EVENTCAUSE := 0x800,
       usbConfiguration := 1,
       sendOnEP0DATADONE_ptr := Some (InCache 0 64), sendOnEP0DATADONE_count := 11\<rparr>) = Returns s' \<and>
     usbConfiguration s' = 0 \<and> sendOnEP0DATADONE_ptr s' = Some (InCache 0 64) \<and>
     sendOnEP0DATADONE_count s' = 11)"
proof -
  let ?s = "boot\<lparr>EVENTS_USBEVENT := 1, EVENTCAUSE := 0x800, usbConfiguration := 1,
       sendOnEP0DATADONE_ptr := Some (InCache 0 64), sendOnEP0DATADONE_count := 11\<rparr>"
  have a: "only_USBEVENT ?s"
    by (simp add: only_USBEVENT_def no_ENDEPOUT_from_def boot_def)
  have e: "EVENTS_USBEVENT ?s = 1"
    by simp
  have b: "EVENTCAUSE ?s AND nrf_USBD_EVENTCAUSE_READY > 0"
    by (simp add: nrf_USBD_EVENTCAUSE_READY_def)
  from bus_ready_keeps_continuation [OF e b, of sample_decls] a b show ?thesis
    by auto
qed

text \<open>The claim as stated fails: a response of 75 bytes leaves a continuation of 11
  bytes recorded; after the bus-ready event the pointer is still set, and the next
  EP0-data-done event sends those 11 bytes.\<close>

theorem bus_ready_discards_counterexample:
  "(case sendUSBPacket 0 (replicate 75 7) boot of
      Returns s1 \<Rightarrow>
        (case handleInterrupt sample_decls
                (s1\<lparr>EVENTS_USBEVENT := 1, EVENTCAUSE := nrf_USBD_EVENTCAUSE_READY\<rparr>) of
           Returns s2 \<Rightarrow>
             sendOnEP0DATADONE_ptr s2 \<noteq> None \<and>
             (case handleInterrupt sample_decls (s2\<lparr>EVENTS_EP0DATADONE := 1\<rparr>) of
                Returns s3 \<Rightarrow>
                  starts_since s2 s3 = [TASKS_STARTEPIN 0] \<and>
                  epin_packet s3 0 = Some (replicate 11 7)
              | Panics e \<Rightarrow> False
              | Hangs \<Rightarrow> False)
         | Panics e \<Rightarrow> False
         | Hangs \<Rightarrow> False)
    | Panics e \<Rightarrow> False
    | Hangs \<Rightarrow> False)"
  by code_simp

subsection \<open>C4: requests without a case\<close>

lemma handleStandardSetup_default:
  "bRequest setup \<notin> set standard_cases \<Longrightarrow> handleStandardSetup d setup t = Returns (True, t)"
  by (simp add: handleStandardSetup_def standard_cases_def)

lemma cdcSetup_unmatched:
  "bmRequestType setup = usb_REQUEST_DEVICETOHOST_CLASS_INTERFACE \<and>
     bRequest setup \<noteq> usb_CDC_GET_LINE_CODING \<or>
   bmRequestType setup \<noteq> usb_REQUEST_DEVICETOHOST_CLASS_INTERFACE \<and>
     bmRequestType setup \<noteq> usb_REQUEST_HOSTTODEVICE_CLASS_INTERFACE \<Longrightarrow>
   cdcSetup setup t = Returns (False, t)"
  by (auto simp: cdcSetup_def usb_REQUEST_DEVICETOHOST_CLASS_INTERFACE_def
      usb_REQUEST_HOSTTODEVICE_CLASS_INTERFACE_def)

lemma handleInterrupt_only_EP0SETUP:
  assumes "only_EP0SETUP s"
    and "handleInterrupt_EP0SETUP d s = Returns s'"
    and "EVENTS_EPDATA s' = 0" "no_ENDEPOUT_from 0 s'"
  shows "handleInterrupt d s = Returns s'"
  using assms
  by (simp add: handleInterrupt_def only_EP0SETUP_def USBEVENT_none EPDATA_none ENDEPOUT_none)


text \<open>
  Claim C4, as amended. For the setup packets named here, the handling of the setup event
  returns (no panic, no endless wait), and so does the whole interrupt when no other
  event is latched. A standard request whose request code has no case in
  \<^verbatim>\<open>handleStandardSetup\<close> is accepted and ignored: the handler returns success with the
  state unchanged and endpoint 0 is not stalled. A class request is failed and
  endpoint 0 is stalled when \<^verbatim>\<open>wIndex\<close> is not the CDC-ACM interface, when
  \<^verbatim>\<open>bmRequestType\<close> is the device-to-host class-interface type and \<^verbatim>\<open>bRequest\<close> is not
  \<^verbatim>\<open>GET_LINE_CODING\<close>, and when \<^verbatim>\<open>bmRequestType\<close> is neither of the two class-interface
  types.
\<close>

theorem unmatched_requests:
  assumes ev: "EVENTS_EP0SETUP s = 1" and parsed: "setup = parseUSBSetupRegisters s"
  shows "(bmRequestType setup AND usb_REQUEST_TYPE = usb_REQUEST_STANDARD \<and>
          bRequest setup \<notin> set standard_cases \<longrightarrow>
            handleStandardSetup d setup t = Returns (True, t) \<and>
            handleInterrupt_EP0SETUP d s = Returns (s\<lparr>EVENTS_EP0SETUP := 0\<rparr>) \<and>
            (only_EP0SETUP s \<longrightarrow> handleInterrupt d s = Returns (s\<lparr>EVENTS_EP0SETUP := 0\<rparr>))) \<and>
         (bmRequestType setup AND usb_REQUEST_TYPE \<noteq> usb_REQUEST_STANDARD \<and>
          (wIndex setup \<noteq> usb_CDC_ACM_INTERFACE \<or>
           bmRequestType setup = usb_REQUEST_DEVICETOHOST_CLASS_INTERFACE \<and>
             bRequest setup \<noteq> usb_CDC_GET_LINE_CODING \<or>
           bmRequestType setup \<noteq> usb_REQUEST_DEVICETOHOST_CLASS_INTERFACE \<and>
             bmRequestType setup \<noteq> usb_REQUEST_HOSTTODEVICE_CLASS_INTERFACE) \<longrightarrow>
            (wIndex setup = usb_CDC_ACM_INTERFACE \<longrightarrow> cdcSetup setup t = Returns (False, t)) \<and>
            handleInterrupt_EP0SETUP d s =
              Returns (trigger TASKS_EP0STALL (s\<lparr>EVENTS_EP0SETUP := 0\<rparr>)) \<and>
            (only_EP0SETUP s \<longrightarrow>
               handleInterrupt d s = Returns (trigger TASKS_EP0STALL (s\<lparr>EVENTS_EP0SETUP := 0\<rparr>))))"
proof -
  have p: "parseUSBSetupRegisters (s\<lparr>EVENTS_EP0SETUP := 0\<rparr>) = setup"
    by (simp add: parsed parseUSBSetupRegisters_def)
  have std: "handleStandardSetup d setup t = Returns (True, t) \<and>
            handleInterrupt_EP0SETUP d s = Returns (s\<lparr>EVENTS_EP0SETUP := 0\<rparr>) \<and>
            (only_EP0SETUP s \<longrightarrow> handleInterrupt d s = Returns (s\<lparr>EVENTS_EP0SETUP := 0\<rparr>))"
    if a: "bmRequestType setup AND usb_REQUEST_TYPE = usb_REQUEST_STANDARD \<and>
          bRequest setup \<notin> set standard_cases"
  proof (intro conjI impI)
    from a show "handleStandardSetup d setup t = Returns (True, t)"
      by (simp add: handleStandardSetup_default)
    show part: "handleInterrupt_EP0SETUP d s = Returns (s\<lparr>EVENTS_EP0SETUP := 0\<rparr>)"
      using a ev by (simp add: handleInterrupt_EP0SETUP_def p Let_def handleStandardSetup_default)
    assume "only_EP0SETUP s"
    with part show "handleInterrupt d s = Returns (s\<lparr>EVENTS_EP0SETUP := 0\<rparr>)"
      by (intro handleInterrupt_only_EP0SETUP)
         (simp_all add: only_EP0SETUP_def no_ENDEPOUT_from_def)
  qed
  have cls: "(wIndex setup = usb_CDC_ACM_INTERFACE \<longrightarrow> cdcSetup setup t = Returns (False, t)) \<and>
            handleInterrupt_EP0SETUP d s =
              Returns (trigger TASKS_EP0STALL (s\<lparr>EVENTS_EP0SETUP := 0\<rparr>)) \<and>
            (only_EP0SETUP s \<longrightarrow>
               handleInterrupt d s = Returns (trigger TASKS_EP0STALL (s\<lparr>EVENTS_EP0SETUP := 0\<rparr>)))"
    if a: "bmRequestType setup AND usb_REQUEST_TYPE \<noteq> usb_REQUEST_STANDARD \<and>
          (wIndex setup \<noteq> usb_CDC_ACM_INTERFACE \<or>
           bmRequestType setup = usb_REQUEST_DEVICETOHOST_CLASS_INTERFACE \<and>
             bRequest setup \<noteq> usb_CDC_GET_LINE_CODING \<or>
           bmRequestType setup \<noteq> usb_REQUEST_DEVICETOHOST_CLASS_INTERFACE \<and>
             bmRequestType setup \<noteq> usb_REQUEST_HOSTTODEVICE_CLASS_INTERFACE)"
  proof (intro conjI impI)
    assume "wIndex setup = usb_CDC_ACM_INTERFACE"
    with a show "cdcSetup setup t = Returns (False, t)"
      by (intro cdcSetup_unmatched) auto
  next
    have c: "wIndex setup = usb_CDC_ACM_INTERFACE \<Longrightarrow>
         cdcSetup setup (s\<lparr>EVENTS_EP0SETUP := 0\<rparr>) = Returns (False, s\<lparr>EVENTS_EP0SETUP := 0\<rparr>)"
      using a by (intro cdcSetup_unmatched) auto
    show part: "handleInterrupt_EP0SETUP d s =
              Returns (trigger TASKS_EP0STALL (s\<lparr>EVENTS_EP0SETUP := 0\<rparr>))"
      using a ev c by (simp add: handleInterrupt_EP0SETUP_def p Let_def)
    assume "only_EP0SETUP s"
    with part show "handleInterrupt d s = Returns (trigger TASKS_EP0STALL (s\<lparr>EVENTS_EP0SETUP := 0\<rparr>))"
      by (intro handleInterrupt_only_EP0SETUP)
         (simp_all add: only_EP0SETUP_def no_ENDEPOUT_from_def trigger_def)
  qed
  from std cls show ?thesis by blast
qed

theorem unmatched_requests_witness:
  "only_EP0SETUP (boot\<lparr>EVENTS_EP0SETUP := 1, BREQUEST := 0xFF\<rparr>) \<and>
   bmRequestType (parseUSBSetupRegisters (boot\<lparr>EVENTS_EP0SETUP := 1, BREQUEST := 0xFF\<rparr>))
     AND usb_REQUEST_TYPE = usb_REQUEST_STANDARD \<and>
   bRequest (parseUSBSetupRegisters (boot\<lparr>EVENTS_EP0SETUP := 1, BREQUEST := 0xFF\<rparr>))
     \<notin> set standard_cases \<and>
   handleInterrupt sample_decls (boot\<lparr>EVENTS_EP0SETUP := 1, BREQUEST := 0xFF\<rparr>) =
     Returns (boot\<lparr>EVENTS_EP0SETUP := 1, BREQUEST := 0xFF\<rparr>\<lparr>EVENTS_EP0SETUP := 0\<rparr>) \<and>
   only_EP0SETUP (boot\<lparr>EVENTS_EP0SETUP := 1, BMREQUESTTYPE := 0xA1, BREQUEST := 0x7F\<rparr>) \<and>
   bmRequestType (parseUSBSetupRegisters
       (boot\<lparr>EVENTS_EP0SETUP := 1, BMREQUESTTYPE := 0xA1, BREQUEST := 0x7F\<rparr>))
     AND usb_REQUEST_TYPE \<noteq> usb_REQUEST_STANDARD \<and>
   bmRequestType (parseUSBSetupRegisters
       (boot\<lparr>EVENTS_EP0SETUP := 1, BMREQUESTTYPE := 0xA1, BREQUEST := 0x7F\<rparr>))
     = usb_REQUEST_DEVICETOHOST_CLASS_INTERFACE \<and>
   bRequest (parseUSBSetupRegisters
       (boot\<lparr>EVENTS_EP0SETUP := 1, BMREQUESTTYPE := 0xA1, BREQUEST := 0x7F\<rparr>))
     \<noteq> usb_CDC_GET_LINE_CODING \<and>
   handleInterrupt sample_decls (boot\<lparr>EVENTS_EP0SETUP := 1, BMREQUESTTYPE := 0xA1, BREQUEST := 0x7F\<rparr>) =
     Returns (trigger TASKS_EP0STALL
       (boot\<lparr>EVENTS_EP0SETUP := 1, BMREQUESTTYPE := 0xA1, BREQUEST := 0x7F\<rparr>\<lparr>EVENTS_EP0SETUP := 0\<rparr>))"
proof -
  let ?a = "boot\<lparr>EVENTS_EP0SETUP := 1, BREQUEST := 0xFF\<rparr>"
  let ?b = "boot\<lparr>EVENTS_EP0SETUP := 1, BMREQUESTTYPE := 0xA1, BREQUEST := 0x7F\<rparr>"
  have oa: "only_EP0SETUP ?a" and ob: "only_EP0SETUP ?b"
    by (simp_all add: only_EP0SETUP_def no_ENDEPOUT_from_def boot_def)
  have ha: "bmRequestType (parseUSBSetupRegisters ?a) AND usb_REQUEST_TYPE = usb_REQUEST_STANDARD"
    "bRequest (parseUSBSetupRegisters ?a) \<notin> set standard_cases"
    by (simp_all add: parseUSBSetupRegisters_def boot_def usb_REQUEST_TYPE_def
        usb_REQUEST_STANDARD_def standard_cases_def usb_GET_STATUS_def usb_CLEAR_FEATURE_def
        usb_SET_FEATURE_def usb_SET_ADDRESS_def usb_GET_DESCRIPTOR_def usb_SET_DESCRIPTOR_def
        usb_GET_CONFIGURATION_def usb_SET_CONFIGURATION_def usb_GET_INTERFACE_def
        usb_SET_INTERFACE_def)
  have hb: "bmRequestType (parseUSBSetupRegisters ?b) AND usb_REQUEST_TYPE \<noteq> usb_REQUEST_STANDARD"
    "bmRequestType (parseUSBSetupRegisters ?b) = usb_REQUEST_DEVICETOHOST_CLASS_INTERFACE"
    "bRequest (parseUSBSetupRegisters ?b) \<noteq> usb_CDC_GET_LINE_CODING"
    by (simp_all add: parseUSBSetupRegisters_def boot_def usb_REQUEST_TYPE_def
        usb_REQUEST_STANDARD_def usb_REQUEST_DEVICETOHOST_CLASS_INTERFACE_def
        usb_CDC_GET_LINE_CODING_def)
  have ea: "EVENTS_EP0SETUP ?a = 1" and eb: "EVENTS_EP0SETUP ?b = 1"
    by simp_all
  from unmatched_requests [OF ea refl, of sample_decls boot]
    unmatched_requests [OF eb refl, of sample_decls boot] oa ob ha hb
  show ?thesis by simp
qed


text \<open>The claim as stated fails: the standard request with request code 0xFF has no
  case, the handler returns success, and the interrupt that handles it does not stall
  endpoint 0.\<close>

theorem unmatched_standard_request_counterexample:
  "bmRequestType \<lparr>bmRequestType = 0x00, bRequest = 0xFF, wValueL = 0, wValueH = 0,
       wIndex = 0, wLength = 0\<rparr> AND usb_REQUEST_TYPE = usb_REQUEST_STANDARD \<and>
   bRequest \<lparr>bmRequestType = 0x00, bRequest = 0xFF, wValueL = 0, wValueH = 0,
       wIndex = 0, wLength = 0\<rparr> \<notin> set standard_cases \<and>
   (case handleStandardSetup sample_decls
           \<lparr>bmRequestType = 0x00, bRequest = 0xFF, wValueL = 0, wValueH = 0,
            wIndex = 0, wLength = 0\<rparr> boot of
      Returns (ok, s1) \<Rightarrow> ok
    | Panics e \<Rightarrow> False
    | Hangs \<Rightarrow> False) \<and>
   (case handleInterrupt sample_decls (boot\<lparr>EVENTS_EP0SETUP := 1, BREQUEST := 0xFF\<rparr>) of
      Returns s1 \<Rightarrow> TASKS_EP0STALL \<notin> set (tasks s1)
    | Panics e \<Rightarrow> False
    | Hangs \<Rightarrow> False)"
  by code_simp

subsection \<open>C5: \<^verbatim>\<open>WriteByte\<close>\<close>

lemma word_pos_and: "(x :: u8) AND m > 0 \<Longrightarrow> x > 0"
  by (cases "x = 0") (simp_all add: word_gt_0)


text \<open>
  Claim C5, as amended. For every byte \<open>c\<close>, \<^verbatim>\<open>WriteByte\<close> starts no transfer and
  returns \<^verbatim>\<open>nil\<close> when the line state is 0 (then neither DTR nor RTS is set). When the
  line state is not 0, which is the case whenever DTR is set, and the busy flag is clear on
  entry, it sets the busy flag, starts exactly one IN transfer on the bulk IN endpoint,
  of that single byte, and returns \<^verbatim>\<open>nil\<close>. When the line state is not 0 and the busy flag
  is set on entry, it waits for the flag: in a run in which no interrupt clears the flag it
  does not return.
\<close>

theorem WriteByte_behaviour:
  "(lineState (usbLineInfo s) = 0 \<longrightarrow> \<not> DTR s \<and> \<not> RTS s \<and> WriteByte c s = Returns (None, s)) \<and>
   (DTR s \<longrightarrow> lineState (usbLineInfo s) > 0) \<and>
   (lineState (usbLineInfo s) > 0 \<and> \<not> HasBits (easyDMABusy s) 1 \<longrightarrow>
      (\<exists>s'. WriteByte c s = Returns (None, s') \<and>
         tasks s' = tasks s @ [TASKS_STARTEPIN usb_CDC_ENDPOINT_IN] \<and>
         epin_packet s' usb_CDC_ENDPOINT_IN = Some [c] \<and>
         HasBits (easyDMABusy s') 1)) \<and>
   (lineState (usbLineInfo s) > 0 \<and> HasBits (easyDMABusy s) 1 \<longrightarrow> WriteByte c s = Hangs)"
proof (intro conjI impI)
  assume "lineState (usbLineInfo s) = 0"
  then show "\<not> DTR s" "\<not> RTS s" "WriteByte c s = Returns (None, s)"
    by (simp_all add: DTR_def RTS_def WriteByte_def)
next
  assume "DTR s"
  then show "lineState (usbLineInfo s) > 0"
    by (auto simp: DTR_def dest: word_pos_and)
next
  assume a: "lineState (usbLineInfo s) > 0 \<and> \<not> HasBits (easyDMABusy s) 1"
  have "in_cache_byte (s\<lparr>udd_ep_in_cache_buffer := (udd_ep_in_cache_buffer s)(3 := (udd_ep_in_cache_buffer s 3)(0 := c))\<rparr>) 384 = c"
    by (simp add: in_cache_byte_def)
  with a show "\<exists>s'. WriteByte c s = Returns (None, s') \<and>
         tasks s' = tasks s @ [TASKS_STARTEPIN usb_CDC_ENDPOINT_IN] \<and>
         epin_packet s' usb_CDC_ENDPOINT_IN = Some [c] \<and>
         HasBits (easyDMABusy s') 1"
    by (simp add: WriteByte_def enterCriticalSection_eq sendViaEPIn_def usb_CDC_ENDPOINT_IN_def
        epin_packet_def in_cache_byte_def)
next
  assume "lineState (usbLineInfo s) > 0 \<and> HasBits (easyDMABusy s) 1"
  then show "WriteByte c s = Hangs"
    by (simp add: WriteByte_def enterCriticalSection_eq)
qed


theorem WriteByte_behaviour_witness:
  "lineState (usbLineInfo boot) = 0 \<and> WriteByte 0x41 boot = Returns (None, boot) \<and>
   DTR (boot\<lparr>usbLineInfo := (usbLineInfo boot)\<lparr>lineState := 1\<rparr>\<rparr>) \<and>
   lineState (usbLineInfo (boot\<lparr>usbLineInfo := (usbLineInfo boot)\<lparr>lineState := 1\<rparr>\<rparr>)) > 0 \<and>
   \<not> HasBits (easyDMABusy (boot\<lparr>usbLineInfo := (usbLineInfo boot)\<lparr>lineState := 1\<rparr>\<rparr>)) 1 \<and>
   (\<exists>s'. WriteByte 0x41 (boot\<lparr>usbLineInfo := (usbLineInfo boot)\<lparr>lineState := 1\<rparr>\<rparr>) = Returns (None, s') \<and>
       tasks s' = [TASKS_STARTEPIN usb_CDC_ENDPOINT_IN] \<and>
       epin_packet s' usb_CDC_ENDPOINT_IN = Some [0x41]) \<and>
   HasBits (easyDMABusy (boot\<lparr>usbLineInfo := (usbLineInfo boot)\<lparr>lineState := 1\<rparr>, easyDMABusy := 1\<rparr>)) 1 \<and>
   WriteByte 0x41 (boot\<lparr>usbLineInfo := (usbLineInfo boot)\<lparr>lineState := 1\<rparr>, easyDMABusy := 1\<rparr>) = Hangs"
proof -
  let ?open = "boot\<lparr>usbLineInfo := (usbLineInfo boot)\<lparr>lineState := 1\<rparr>\<rparr>"
  let ?busy = "boot\<lparr>usbLineInfo := (usbLineInfo boot)\<lparr>lineState := 1\<rparr>, easyDMABusy := 1\<rparr>"
  have a: "lineState (usbLineInfo boot) = 0" "tasks boot = []" "easyDMABusy boot = 0"
    by (simp_all add: boot_def)
  have b: "DTR ?open" "\<not> HasBits (easyDMABusy ?open) 1" "HasBits (easyDMABusy ?busy) 1"
    by (simp_all add: DTR_def usb_CDC_LINESTATE_DTR_def HasBits_def a)
  from WriteByte_behaviour [of boot "0x41"] WriteByte_behaviour [of ?open "0x41"]
    WriteByte_behaviour [of ?busy "0x41"] a b
  show ?thesis by auto
qed

text \<open>The claim as stated fails twice. After \<^verbatim>\<open>SET_CONTROL_LINE_STATE\<close> with the value 4
  neither DTR nor RTS is set, and \<^verbatim>\<open>WriteByte\<close> starts a transfer, because it tests the
  whole line state against 0. And with DTR set and the busy flag set, \<^verbatim>\<open>WriteByte\<close> does
  not return.\<close>

theorem WriteByte_counterexample:
  "(case cdcSetup \<lparr>bmRequestType = usb_REQUEST_HOSTTODEVICE_CLASS_INTERFACE,
                   bRequest = usb_CDC_SET_CONTROL_LINE_STATE, wValueL = 4, wValueH = 0,
                   wIndex = usb_CDC_ACM_INTERFACE, wLength = 0\<rparr> boot of
      Returns (ok, s) \<Rightarrow>
        \<not> DTR s \<and> \<not> RTS s \<and>
        (case WriteByte 0x41 s of
           Returns (e, s') \<Rightarrow>
             starts_since s s' = [TASKS_STARTEPIN 3] \<and> epin_packet s' 3 = Some [0x41]
         | Panics e \<Rightarrow> False
         | Hangs \<Rightarrow> False)
    | Panics e \<Rightarrow> False
    | Hangs \<Rightarrow> False) \<and>
   DTR (boot\<lparr>usbLineInfo := (usbLineInfo boot)\<lparr>lineState := 1\<rparr>, easyDMABusy := 1\<rparr>) \<and>
   (case WriteByte 0x41 (boot\<lparr>usbLineInfo := (usbLineInfo boot)\<lparr>lineState := 1\<rparr>,
                              easyDMABusy := 1\<rparr>) of
      Returns r \<Rightarrow> False
    | Panics e \<Rightarrow> False
    | Hangs \<Rightarrow> True)"
  by code_simp

subsection \<open>The end of the data phase of \<^verbatim>\<open>SET_LINE_CODING\<close>\<close>

lemma le32_bytes:
  fixes b0 b1 b2 b3 :: u8
  defines "w \<equiv> (ucast b0 OR push_bit 8 (ucast b1) OR push_bit 16 (ucast b2)
                   OR push_bit 24 (ucast b3) :: u32)"
  shows "ucast w = b0" "ucast (drop_bit 8 w) = b1" "ucast (drop_bit 16 w) = b2"
    "ucast (drop_bit 24 w) = b3"
  unfolding w_def
  by (rule bit_word_eqI; auto simp: bit_simps dest: bit_imp_le_length)+

lemma handleInterrupt_only_ENDEPOUT0:
  assumes "only_ENDEPOUT0 s"
  shows "handleInterrupt d s = handleInterrupt_ENDEPOUT_from 0 s"
  using assms
  by (simp add: handleInterrupt_def only_ENDEPOUT0_def USBEVENT_none EP0SETUP_none EPDATA_none)

lemma ENDEPOUT0_ignored:
  assumes ev: "EVENTS_ENDEPOUT s 0 > 0"
    and pending: "epout0data_setlinecoding s" and short: "sint (SIZE_EPOUT s 0) < 7"
  shows "handleInterrupt_ENDEPOUT_at 0 s =
     Returns (s\<lparr>EVENTS_ENDEPOUT := (EVENTS_ENDEPOUT s)(0 := 0),
                epout0data_setlinecoding := False,
                tasks := tasks s @ [TASKS_EP0STATUS],
                easyDMABusy := ClearBits (easyDMABusy s) 1\<rparr>)"
  using ev pending short
  by (simp add: handleInterrupt_ENDEPOUT_at_def Let_def trigger_def exitCriticalSection_def
      usb_CDC_ENDPOINT_OUT_def)

lemma map_upt_7: "map f [0..<7] = [f 0, f 1, f 2, f 3, f 4, f 5, f (6 :: nat)]"
proof -
  have "[0..<7] = [0, 1, 2, 3, 4, 5, 6 :: nat]"
    by (simp add: upt_conv_Cons numeral_eq_Suc)
  then show ?thesis by simp
qed

lemma parseUSBLineInfo_row:
  assumes "7 \<le> n"
  shows "parseUSBLineInfo (map f [0..<n]) t =
     Returns (t\<lparr>usbLineInfo := (usbLineInfo t)\<lparr>
                  dwDTERate := ucast (f 0) OR push_bit 8 (ucast (f 1))
                     OR push_bit 16 (ucast (f 2)) OR push_bit 24 (ucast (f 3)),
                  bCharFormat := f 4,
                  bParityType := f 5,
                  bDataBits := f 6\<rparr>\<rparr>)"
proof -
  have nth: "\<And>i. i < 7 \<Longrightarrow> map f [0..<n] ! i = f i"
    using assms by simp
  have "map f [0..<n] ! 0 = f 0" "map f [0..<n] ! 1 = f 1" "map f [0..<n] ! 2 = f 2"
    "map f [0..<n] ! 3 = f 3" "map f [0..<n] ! 4 = f 4" "map f [0..<n] ! 5 = f 5"
    "map f [0..<n] ! 6 = f 6"
    using nth [of 0] nth [of 1] nth [of 2] nth [of 3] nth [of 4] nth [of 5] nth [of 6]
    by simp_all
  then show ?thesis
    using assms by (simp only: parseUSBLineInfo_def length_map length_upt) simp
qed

lemma ENDEPOUT0_parsed:
  assumes ev: "EVENTS_ENDEPOUT s 0 > 0"
    and pending: "epout0data_setlinecoding s"
    and enough: "7 \<le> sint (SIZE_EPOUT s 0)" and inside: "sint (SIZE_EPOUT s 0) \<le> 128"
  shows "handleInterrupt_ENDEPOUT_at 0 s =
     Returns (s\<lparr>EVENTS_ENDEPOUT := (EVENTS_ENDEPOUT s)(0 := 0),
                epout0data_setlinecoding := False,
                usbLineInfo := (usbLineInfo s)\<lparr>
                  dwDTERate := ucast (udd_ep_out_cache_buffer s 0 0)
                     OR push_bit 8 (ucast (udd_ep_out_cache_buffer s 0 1))
                     OR push_bit 16 (ucast (udd_ep_out_cache_buffer s 0 2))
                     OR push_bit 24 (ucast (udd_ep_out_cache_buffer s 0 3)),
                  bCharFormat := udd_ep_out_cache_buffer s 0 4,
                  bParityType := udd_ep_out_cache_buffer s 0 5,
                  bDataBits := udd_ep_out_cache_buffer s 0 6\<rparr>,
                tasks := tasks s @ [CALL_checkShouldReset, TASKS_EP0STATUS],
                easyDMABusy := ClearBits (easyDMABusy s) 1\<rparr>)"
proof -
  have k: "7 \<le> nat (sint (SIZE_EPOUT s 0))"
    using enough by simp
  show ?thesis
    using ev pending enough inside k
    by (simp add: handleInterrupt_ENDEPOUT_at_def Let_def trigger_def exitCriticalSection_def
        usb_CDC_ENDPOINT_OUT_def out_row_slice_def parseUSBLineInfo_row checkShouldReset_def)
qed

subsection \<open>C7: a line-coding payload of fewer than 7 bytes\<close>

text \<open>
  Claim C7. When the end of the OUT transfer on endpoint 0 is latched while a
  \<^verbatim>\<open>SET_LINE_CODING\<close> data phase is pending, and the size register of the endpoint
  reads fewer than 7 bytes, the handling of that event returns, every field of the line
  coding is what it was, nothing is reported (no stall, no call of the reset hook): the
  only task triggered is the status stage, and the data phase is no longer pending. When
  no other event is latched, that is the state in which the interrupt handler returns.
\<close>

theorem short_line_coding_ignored:
  assumes "EVENTS_ENDEPOUT s 0 > 0" "epout0data_setlinecoding s" "sint (SIZE_EPOUT s 0) < 7"
  shows "\<exists>s'. handleInterrupt_ENDEPOUT_at 0 s = Returns s' \<and>
           usbLineInfo s' = usbLineInfo s \<and>
           tasks s' = tasks s @ [TASKS_EP0STATUS] \<and>
           \<not> epout0data_setlinecoding s' \<and>
           (only_ENDEPOUT0 s \<longrightarrow> handleInterrupt d s = Returns s')"
proof -
  define s' where "s' = s\<lparr>EVENTS_ENDEPOUT := (EVENTS_ENDEPOUT s)(0 := 0),
                epout0data_setlinecoding := False,
                tasks := tasks s @ [TASKS_EP0STATUS],
                easyDMABusy := ClearBits (easyDMABusy s) 1\<rparr>"
  have at: "handleInterrupt_ENDEPOUT_at 0 s = Returns s'"
    using assms by (simp add: s'_def ENDEPOUT0_ignored)
  have whole: "handleInterrupt d s = Returns s'" if only: "only_ENDEPOUT0 s"
  proof -
    from only have "no_ENDEPOUT_from 1 s'"
      by (simp add: only_ENDEPOUT0_def no_ENDEPOUT_from_def s'_def)
    with at only show ?thesis
      by (simp add: handleInterrupt_only_ENDEPOUT0 ENDEPOUT_only_0)
  qed
  from at whole show ?thesis by (simp add: s'_def)
qed

theorem short_line_coding_ignored_witness:
  "only_ENDEPOUT0 (boot\<lparr>epout0data_setlinecoding := True,
        EVENTS_ENDEPOUT := (\<lambda>i. if i = 0 then 1 else 0),
        SIZE_EPOUT := (\<lambda>i. if i = 0 then 6 else 0)\<rparr>) \<and>
   sint (SIZE_EPOUT (boot\<lparr>epout0data_setlinecoding := True,
        EVENTS_ENDEPOUT := (\<lambda>i. if i = 0 then 1 else 0),
        SIZE_EPOUT := (\<lambda>i. if i = 0 then 6 else 0)\<rparr>) 0) < 7 \<and>
   (\<exists>s'. handleInterrupt sample_decls (boot\<lparr>epout0data_setlinecoding := True,
        EVENTS_ENDEPOUT := (\<lambda>i. if i = 0 then 1 else 0),
        SIZE_EPOUT := (\<lambda>i. if i = 0 then 6 else 0)\<rparr>) = Returns s' \<and>
      usbLineInfo s' = \<lparr>dwDTERate = 115200, bCharFormat = 0, bParityType = 0,
                          bDataBits = 8, lineState = 0\<rparr> \<and>
      tasks s' = [TASKS_EP0STATUS])"
proof -
  let ?s = "boot\<lparr>epout0data_setlinecoding := True,
        EVENTS_ENDEPOUT := (\<lambda>i. if i = 0 then 1 else 0),
        SIZE_EPOUT := (\<lambda>i. if i = 0 then 6 else 0)\<rparr>"
  have a: "only_ENDEPOUT0 ?s" "epout0data_setlinecoding ?s" "sint (SIZE_EPOUT ?s 0) < 7"
    by (simp_all add: only_ENDEPOUT0_def no_ENDEPOUT_from_def boot_def)
  have b: "usbLineInfo ?s = \<lparr>dwDTERate = 115200, bCharFormat = 0, bParityType = 0,
                          bDataBits = 8, lineState = 0\<rparr>" "tasks ?s = []"
    by (simp_all add: boot_def)
  have e: "EVENTS_ENDEPOUT ?s 0 > 0"
    by simp
  from short_line_coding_ignored [OF e a(2,3), of sample_decls] a b show ?thesis
    by auto
qed


subsection \<open>C6: \<^verbatim>\<open>GET_LINE_CODING\<close> after \<^verbatim>\<open>SET_LINE_CODING\<close>\<close>

text \<open>
  Claim C6. When the data phase of \<^verbatim>\<open>SET_LINE_CODING\<close> ends with at least 7 bytes in
  row 0 of the OUT staging array, the handling of that event parses them into the line
  coding (and it is the whole of the interrupt when no other event is latched), and a
  \<^verbatim>\<open>GET_LINE_CODING\<close> request that follows sends exactly those 7 bytes: the encoding
  is the inverse of \<^verbatim>\<open>parseUSBLineInfo\<close>. For the payload of 9600 baud, character
  format 1, parity 0 and 8 data bits the response is \<open>[0x80, 0x25, 0, 0, 1, 0, 8]\<close>:
  that instance is the witness.
\<close>

theorem line_coding_round_trip:
  assumes "EVENTS_ENDEPOUT s 0 > 0" "epout0data_setlinecoding s"
    and "7 \<le> sint (SIZE_EPOUT s 0)" "sint (SIZE_EPOUT s 0) \<le> 128"
    and "bmRequestType setup = usb_REQUEST_DEVICETOHOST_CLASS_INTERFACE"
    and "bRequest setup = usb_CDC_GET_LINE_CODING"
  shows "\<exists>s1. handleInterrupt_ENDEPOUT_at 0 s = Returns s1 \<and>
           (only_ENDEPOUT0 s \<longrightarrow> handleInterrupt d s = Returns s1) \<and>
           dwDTERate (usbLineInfo s1) =
             ucast (udd_ep_out_cache_buffer s 0 0)
             OR push_bit 8 (ucast (udd_ep_out_cache_buffer s 0 1))
             OR push_bit 16 (ucast (udd_ep_out_cache_buffer s 0 2))
             OR push_bit 24 (ucast (udd_ep_out_cache_buffer s 0 3)) \<and>
           bCharFormat (usbLineInfo s1) = udd_ep_out_cache_buffer s 0 4 \<and>
           bParityType (usbLineInfo s1) = udd_ep_out_cache_buffer s 0 5 \<and>
           bDataBits (usbLineInfo s1) = udd_ep_out_cache_buffer s 0 6 \<and>
           response (cdcSetup setup s1) = Some (map (udd_ep_out_cache_buffer s 0) [0..<7])"
proof -
  define s1 where "s1 = s\<lparr>EVENTS_ENDEPOUT := (EVENTS_ENDEPOUT s)(0 := 0),
                epout0data_setlinecoding := False,
                usbLineInfo := (usbLineInfo s)\<lparr>
                  dwDTERate := ucast (udd_ep_out_cache_buffer s 0 0)
                     OR push_bit 8 (ucast (udd_ep_out_cache_buffer s 0 1))
                     OR push_bit 16 (ucast (udd_ep_out_cache_buffer s 0 2))
                     OR push_bit 24 (ucast (udd_ep_out_cache_buffer s 0 3)),
                  bCharFormat := udd_ep_out_cache_buffer s 0 4,
                  bParityType := udd_ep_out_cache_buffer s 0 5,
                  bDataBits := udd_ep_out_cache_buffer s 0 6\<rparr>,
                tasks := tasks s @ [CALL_checkShouldReset, TASKS_EP0STATUS],
                easyDMABusy := ClearBits (easyDMABusy s) 1\<rparr>"
  have at: "handleInterrupt_ENDEPOUT_at 0 s = Returns s1"
    using assms(1-4) by (simp add: s1_def ENDEPOUT0_parsed)
  have whole: "handleInterrupt d s = Returns s1" if only: "only_ENDEPOUT0 s"
  proof -
    from only have "no_ENDEPOUT_from 1 s1"
      by (simp add: only_ENDEPOUT0_def no_ENDEPOUT_from_def s1_def)
    with at only show ?thesis
      by (simp add: handleInterrupt_only_ENDEPOUT0 ENDEPOUT_only_0)
  qed
  let ?f = "udd_ep_out_cache_buffer s 0"
  let ?b = "map ?f [0..<7]"
  define w where "w = (ucast (?f 0) OR push_bit 8 (ucast (?f 1))
                     OR push_bit 16 (ucast (?f 2)) OR push_bit 24 (ucast (?f 3)) :: u32)"
  have bytes: "ucast w = ?f 0" "ucast (drop_bit 8 w) = ?f 1" "ucast (drop_bit 16 w) = ?f 2"
    "ucast (drop_bit 24 w) = ?f 3"
    unfolding w_def by (rule le32_bytes)+
  have li: "dwDTERate (usbLineInfo s1) = w" "bCharFormat (usbLineInfo s1) = ?f 4"
    "bParityType (usbLineInfo s1) = ?f 5" "bDataBits (usbLineInfo s1) = ?f 6"
    by (simp_all add: s1_def w_def)
  have enc: "[ucast (dwDTERate (usbLineInfo s1)),
              ucast (drop_bit 8 (dwDTERate (usbLineInfo s1))),
              ucast (drop_bit 16 (dwDTERate (usbLineInfo s1))),
              ucast (drop_bit 24 (dwDTERate (usbLineInfo s1))),
              bCharFormat (usbLineInfo s1),
              bParityType (usbLineInfo s1),
              bDataBits (usbLineInfo s1)] = ?b"
    by (simp only: li bytes map_upt_7)
  obtain s2 where "sendUSBPacket 0 ?b s1 = Returns s2" "epin_packet s2 0 = Some ?b"
    using sendUSBPacket_response [of ?b s1] by auto
  then have "response (cdcSetup setup s1) = Some ?b"
    using assms(5,6) by (simp only: cdcSetup_def response_def Let_def enc) simp
  with at whole li show ?thesis by (simp add: w_def)
qed

theorem line_coding_round_trip_witness:
  "only_ENDEPOUT0 (boot\<lparr>epout0data_setlinecoding := True,
        EVENTS_ENDEPOUT := (\<lambda>i. if i = 0 then 1 else 0),
        SIZE_EPOUT := (\<lambda>i. if i = 0 then 7 else 0),
        udd_ep_out_cache_buffer := (\<lambda>ep i. if ep = 0 then
           (if i = 0 then 0x80 else if i = 1 then 0x25 else if i = 4 then 1
            else if i = 6 then 8 else 0) else 0)\<rparr>) \<and>
   (\<exists>s1. handleInterrupt sample_decls (boot\<lparr>epout0data_setlinecoding := True,
        EVENTS_ENDEPOUT := (\<lambda>i. if i = 0 then 1 else 0),
        SIZE_EPOUT := (\<lambda>i. if i = 0 then 7 else 0),
        udd_ep_out_cache_buffer := (\<lambda>ep i. if ep = 0 then
           (if i = 0 then 0x80 else if i = 1 then 0x25 else if i = 4 then 1
            else if i = 6 then 8 else 0) else 0)\<rparr>) = Returns s1 \<and>
      dwDTERate (usbLineInfo s1) = 9600 \<and> bCharFormat (usbLineInfo s1) = 1 \<and>
      bParityType (usbLineInfo s1) = 0 \<and> bDataBits (usbLineInfo s1) = 8 \<and>
      response (cdcSetup \<lparr>bmRequestType = usb_REQUEST_DEVICETOHOST_CLASS_INTERFACE,
                  bRequest = usb_CDC_GET_LINE_CODING, wValueL = 0, wValueH = 0,
                  wIndex = usb_CDC_ACM_INTERFACE, wLength = 7\<rparr> s1) =
        Some [0x80, 0x25, 0, 0, 1, 0, 8])"
proof -
  let ?s = "boot\<lparr>epout0data_setlinecoding := True,
        EVENTS_ENDEPOUT := (\<lambda>i. if i = 0 then 1 else 0),
        SIZE_EPOUT := (\<lambda>i. if i = 0 then 7 else 0),
        udd_ep_out_cache_buffer := (\<lambda>ep i. if ep = 0 then
           (if i = 0 then 0x80 else if i = 1 then 0x25 else if i = 4 then 1
            else if i = 6 then 8 else 0) else 0)\<rparr>"
  let ?g = "\<lparr>bmRequestType = usb_REQUEST_DEVICETOHOST_CLASS_INTERFACE,
                  bRequest = usb_CDC_GET_LINE_CODING, wValueL = 0, wValueH = 0,
                  wIndex = usb_CDC_ACM_INTERFACE, wLength = 7\<rparr>"
  have a: "only_ENDEPOUT0 ?s" "epout0data_setlinecoding ?s"
    "7 \<le> sint (SIZE_EPOUT ?s 0)" "sint (SIZE_EPOUT ?s 0) \<le> 128"
    by (simp_all add: only_ENDEPOUT0_def no_ENDEPOUT_from_def boot_def)
  have g: "bmRequestType ?g = usb_REQUEST_DEVICETOHOST_CLASS_INTERFACE"
    "bRequest ?g = usb_CDC_GET_LINE_CODING"
    by simp_all
  have e: "EVENTS_ENDEPOUT ?s 0 > 0"
    by simp
  from line_coding_round_trip [OF e a(2-4) g, of sample_decls] a show ?thesis
    by (auto simp: map_upt_7)
qed

end
